theory Spec2Isabelle
  imports Main "HOL-Library.Word"
begin

unbundle bit_operations_syntax

section \<open>Data model\<close>

text \<open>
  The library under verification is the TCP layer (\<^verbatim>\<open>network/tcp.c\<close>) and the event bus
  (\<^verbatim>\<open>network/event.c\<close>) of a network abstraction over BSD sockets. The model is built for
  the POSIX branch of the conditional compilation, with logging enabled
  (\<^verbatim>\<open>BUILD_ENABLE_LOG\<close>).

  A \<^verbatim>\<open>socket_t*\<close> is an address; address 0 is the null pointer.
\<close>

type_synonym ptr = nat

type_synonym object_t = "64 word"

type_synonym sockaddr = "8 word list"

text \<open>
  Modelled from the spec: the enumerations and record types of \<^verbatim>\<open>network/types.h\<close> and
  \<^verbatim>\<open>network/internal.h\<close>, which are not among the sources. The spec's data model lists
  the states \<open>NotConnected, Connecting, Connected, Listening, Disconnected\<close>, the families
  \<open>IPv4, IPv6\<close>, the fields of the socket record (\<open>base_index\<close>, the two optional owned
  addresses, the protocol dispatch functions) and of the socket base record (\<open>fd\<close>,
  \<open>state\<close>, \<open>flags\<close>, \<open>last_event\<close>; the I/O buffers are left out, no modelled function
  reads or writes them). The constructor and field names are the ones \<^verbatim>\<open>tcp.c\<close> uses.
\<close>

datatype socket_state_t =
    SOCKETSTATE_NOTCONNECTED
  | SOCKETSTATE_CONNECTING
  | SOCKETSTATE_CONNECTED
  | SOCKETSTATE_LISTENING
  | SOCKETSTATE_DISCONNECTED

datatype network_address_family_t = NETWORK_ADDRESSFAMILY_IPV4 | NETWORK_ADDRESSFAMILY_IPV6

text \<open>
  A \<^verbatim>\<open>network_address_ip_t\<close>: the family, the size of the socket address and its raw
  bytes. Addresses are values in the model, so a clone is an independent copy by
  construction and releasing an address leaves no trace.
\<close>

record network_address_t =
  family :: network_address_family_t
  address_size :: nat
  saddr :: sockaddr

text \<open>
  The two function pointers of a socket record select the protocol; \<open>None\<close> is the
  null function pointer.
\<close>

datatype protocol_fn = TCP_FN | UDP_FN

record socket_t =
  base :: int
  address_local :: "network_address_t option"
  address_remote :: "network_address_t option"
  open_fn :: "protocol_fn option"
  stream_initialize_fn :: "protocol_fn option"

text \<open>
  A slot of the shared base table. \<open>link\<close> is the socket the slot is linked to; the
  null pointer marks a free slot.
\<close>

record socket_base_t =
  link :: ptr
  fd :: int
  flags :: "32 word"
  state :: socket_state_t
  last_event :: nat

text \<open>
  Modelled from the spec: the constants of \<^verbatim>\<open>network/internal.h\<close>, which is not among the
  sources. The spec gives \<open>flags\<close> as a bitset of \<open>{Blocking, TcpDelay, Reflush, Hangup}\<close>
  (one bit each, here in the order listed) and \<open>fd\<close> as an OS descriptor or \<open>INVALID\<close>;
  \<^verbatim>\<open>tcp.c\<close> treats every negative descriptor as a failure, and the invalid descriptor of
  the POSIX build is \<open>-1\<close>.
\<close>

definition SOCKETFLAG_BLOCKING :: "32 word" where
  "SOCKETFLAG_BLOCKING = 1"

definition SOCKETFLAG_TCPDELAY :: "32 word" where
  "SOCKETFLAG_TCPDELAY = 2"

definition SOCKETFLAG_REFLUSH :: "32 word" where
  "SOCKETFLAG_REFLUSH = 4"

definition SOCKETFLAG_HANGUP :: "32 word" where
  "SOCKETFLAG_HANGUP = 8"

definition SOCKET_INVALID :: int where
  "SOCKET_INVALID = - 1"

text \<open>The value of \<^verbatim>\<open>errno\<close> for "operation would block" (Linux).\<close>

definition EAGAIN :: int where
  "EAGAIN = 11"

text \<open>
  The number of descriptors an \<^verbatim>\<open>fd_set\<close> holds (Linux): \<^verbatim>\<open>FD_SET\<close> is defined for the
  descriptors from 0 up to, not including, this number.
\<close>

definition FD_SETSIZE :: int where
  "FD_SETSIZE = 1024"

text \<open>The size of the socket address of a family (\<^verbatim>\<open>sockaddr_in\<close>, \<^verbatim>\<open>sockaddr_in6\<close>).\<close>

fun sockaddr_size :: "network_address_family_t \<Rightarrow> nat" where
  "sockaddr_size NETWORK_ADDRESSFAMILY_IPV4 = 16"
| "sockaddr_size NETWORK_ADDRESSFAMILY_IPV6 = 28"

section \<open>The world outside the functions\<close>

text \<open>
  Every call into the operating system is recorded, in order, in \<open>syscalls\<close>; every
  line handed to the logger is recorded in \<open>logged\<close>. A log entry keeps the level, the
  error class and the text of the format string up to its first argument.
\<close>

datatype address_family = AF_INET | AF_INET6

datatype syscall =
    SYS_socket address_family
  | SYS_listen int
  | SYS_accept int
  | SYS_select int "int list" "int list" nat nat
  | SYS_set_blocking int bool
  | SYS_setsockopt_TCP_NODELAY int int
  | SYS_getsockname int
  | SYS_shutdown int
  | SYS_close int

datatype error_t = ERROR_INVALID_VALUE | ERROR_SYSTEM_CALL_FAIL

datatype log_entry =
    LOG_debugf string
  | LOG_infof string
  | LOG_errorf error_t string

text \<open>
  The state the functions of \<^verbatim>\<open>tcp.c\<close> work on: the base table \<^verbatim>\<open>_socket_base\<close> with its
  capacity, the memory holding socket records (\<open>heap\<close>, with the set \<open>live\<close> of addresses
  that are allocated), and the two traces.
\<close>

record world =
  socket_base :: "nat \<Rightarrow> socket_base_t"
  socket_base_size :: nat
  heap :: "ptr \<Rightarrow> socket_t"
  live :: "ptr set"
  syscalls :: "syscall list"
  logged :: "log_entry list"

text \<open>
  What the operating system and the allocator answer during one call of a library
  function: the return values of \<^verbatim>\<open>listen\<close>, \<^verbatim>\<open>socket\<close> and \<^verbatim>\<open>select\<close>, the
  outcome of the first \<^verbatim>\<open>accept\<close> and of its retry (return value, \<^verbatim>\<open>errno\<close> and the peer
  address stored on success), the address \<^verbatim>\<open>getsockname\<close> stores, and the address
  \<^verbatim>\<open>memory_allocate\<close> returns (0 when it has no memory).
\<close>

record accept_reply =
  accept_ret :: int
  accept_errno :: int
  accept_saddr :: sockaddr

record os_env =
  listen_ret :: int
  socket_ret :: int
  select_ret :: int
  accept_first :: accept_reply
  accept_retry :: accept_reply
  getsockname_saddr :: sockaddr
  memory_allocate_ret :: ptr

definition log_to :: "log_entry \<Rightarrow> world \<Rightarrow> world" where
  "log_to e w = w\<lparr>logged := logged w @ [e]\<rparr>"

definition sys :: "syscall \<Rightarrow> world \<Rightarrow> world" where
  "sys c w = w\<lparr>syscalls := syscalls w @ [c]\<rparr>"

text \<open>
  Where C leaves the behaviour of the code undefined, the function has no result: the
  model yields a fault in place of one. Two such places are on the paths of
  \<^verbatim>\<open>tcp.c\<close>: a store through the null pointer, and \<^verbatim>\<open>FD_SET\<close> with a descriptor outside
  the range of an \<^verbatim>\<open>fd_set\<close>.
\<close>

datatype fault = NULL_DEREFERENCE | FD_SET_OUT_OF_RANGE

text \<open>A store through a socket pointer.\<close>

definition store_socket :: "ptr \<Rightarrow> (socket_t \<Rightarrow> socket_t) \<Rightarrow> world \<Rightarrow> world" where
  "store_socket p f w = w\<lparr>heap := (heap w)(p := f (heap w p))\<rparr>"

text \<open>A store into slot \<open>i\<close> of the base table.\<close>

definition store_base :: "nat \<Rightarrow> (socket_base_t \<Rightarrow> socket_base_t) \<Rightarrow> world \<Rightarrow> world" where
  "store_base i f w = w\<lparr>socket_base := (socket_base w)(i := f (socket_base w i))\<rparr>"

text \<open>
  \<^verbatim>\<open>accept(fd, &address->saddr, &len)\<close>: the call is recorded; on success the peer
  address is stored in the buffer, on failure the buffer is left as it was. The result
  is the return value, \<^verbatim>\<open>errno\<close>, the buffer and the world.
\<close>

definition sys_accept ::
  "accept_reply \<Rightarrow> int \<Rightarrow> network_address_t \<Rightarrow> world \<Rightarrow> int \<times> int \<times> network_address_t \<times> world" where
  "sys_accept r lfd a w =
     (accept_ret r, accept_errno r,
      (if 0 \<le> accept_ret r then a\<lparr>saddr := accept_saddr r\<rparr> else a),
      sys (SYS_accept lfd) w)"

section \<open>The socket layer the TCP functions call\<close>

text \<open>
  Modelled from the spec: \<^verbatim>\<open>memory_allocate\<close> with \<^verbatim>\<open>MEMORY_ZERO_INITIALIZED\<close>, of the
  foundation library. The allocator's contract is "aligned allocate, zero-initialize on
  request, deallocate": the block at the returned address holds a zeroed record and
  becomes live; a null result changes nothing.
\<close>

definition zero_socket :: socket_t where
  "zero_socket =
     \<lparr>base = 0, address_local = None, address_remote = None,
      open_fn = None, stream_initialize_fn = None\<rparr>"

definition memory_allocate :: "os_env \<Rightarrow> world \<Rightarrow> ptr \<times> world" where
  "memory_allocate os w =
     (let p = memory_allocate_ret os in
      if p = 0 then (0, w)
      else (p, w\<lparr>heap := (heap w)(p := zero_socket), live := insert p (live w)\<rparr>))"

text \<open>
  Modelled from the spec: \<^verbatim>\<open>_socket_initialize\<close> of \<^verbatim>\<open>network/socket.c\<close>, which is not
  among the sources. A socket record starts closed: \<open>base_index\<close> is \<open>-1\<close> and it owns
  no address.
\<close>

definition socket_initialize :: "ptr \<Rightarrow> world \<Rightarrow> world" where
  "socket_initialize sock w =
     store_socket sock (\<lambda>s. zero_socket\<lparr>base := - 1\<rparr>) w"

text \<open>
  Modelled from the spec: \<^verbatim>\<open>_socket_allocate_base\<close> of \<^verbatim>\<open>network/socket.c\<close>, which is not
  among the sources: "returns a free base slot, zero-initializes it, links it to sock,
  returns its index, or fails with OutOfSlots". The failure is a negative result, which
  is what \<^verbatim>\<open>tcp_socket_accept\<close> tests.
\<close>

definition socket_allocate_base :: "ptr \<Rightarrow> world \<Rightarrow> int \<times> world" where
  "socket_allocate_base sock w =
     (case find (\<lambda>i. link (socket_base w i) = 0) [0..<socket_base_size w] of
        None \<Rightarrow> (- 1, w)
      | Some i \<Rightarrow>
          (int i,
           store_socket sock (\<lambda>s. s\<lparr>base := int i\<rparr>)
             (store_base i
                (\<lambda>b. \<lparr>link = sock, fd = 0, flags = 0,
                      state = SOCKETSTATE_NOTCONNECTED, last_event = 0\<rparr>) w)))"

text \<open>
  Modelled from the spec: \<^verbatim>\<open>_socket_close_fd\<close> of \<^verbatim>\<open>network/socket.c\<close>, which is not among
  the sources: "perform graceful shutdown then close".
\<close>

definition socket_close_fd :: "int \<Rightarrow> world \<Rightarrow> world" where
  "socket_close_fd f w = sys (SYS_close f) (sys (SYS_shutdown f) w)"

text \<open>
  Modelled from the spec: freeing a base slot and \<^verbatim>\<open>socket_deallocate\<close> of
  \<^verbatim>\<open>network/socket.c\<close>, which is not among the sources: "free_base(index): closes fd if
  valid, returns the slot" and "socket records are destroyed on free; their base slot is
  returned to a free list".
\<close>

definition socket_free_base :: "int \<Rightarrow> world \<Rightarrow> world" where
  "socket_free_base index w =
     (if index < 0 then w
      else
        let i = nat index;
            w1 = (if fd (socket_base w i) \<noteq> SOCKET_INVALID
                  then socket_close_fd (fd (socket_base w i)) w else w)
        in store_base i (\<lambda>b. b\<lparr>link := 0, fd := SOCKET_INVALID\<rparr>) w1)"

definition socket_deallocate :: "ptr \<Rightarrow> world \<Rightarrow> world" where
  "socket_deallocate sock w =
     (let w1 = socket_free_base (base (heap w sock)) w
      in w1\<lparr>live := live w1 - {sock}\<rparr>)"

text \<open>
  Modelled from the spec: \<^verbatim>\<open>socket_set_blocking\<close> of \<^verbatim>\<open>network/socket.c\<close>, which is not
  among the sources: "updates the Blocking flag and toggles the OS non-blocking flag".
  The flag lives in the base slot, so a socket without a slot has nothing to update;
  the OS flag is toggled on the descriptor of the slot when there is one.
\<close>

definition socket_set_blocking :: "ptr \<Rightarrow> bool \<Rightarrow> world \<Rightarrow> world" where
  "socket_set_blocking sock block w =
     (if base (heap w sock) < 0 then w
      else
        let i = nat (base (heap w sock));
            w1 = store_base i
                   (\<lambda>b. b\<lparr>flags := (if block then flags b OR SOCKETFLAG_BLOCKING
                                     else flags b AND NOT SOCKETFLAG_BLOCKING)\<rparr>) w
        in if fd (socket_base w1 i) \<noteq> SOCKET_INVALID
           then sys (SYS_set_blocking (fd (socket_base w1 i)) block) w1
           else w1)"

text \<open>
  Modelled from the spec: \<^verbatim>\<open>socket_blocking\<close> of \<^verbatim>\<open>network/socket.c\<close>, which is not among
  the sources: the blocking mode a caller observes is the \<open>Blocking\<close> flag of the base
  slot (false for a socket without a slot).
\<close>

definition socket_blocking :: "ptr \<Rightarrow> world \<Rightarrow> bool" where
  "socket_blocking sock w =
     (if base (heap w sock) < 0 then False
      else flags (socket_base w (nat (base (heap w sock)))) AND SOCKETFLAG_BLOCKING \<noteq> 0)"

text \<open>
  Modelled from the spec: \<^verbatim>\<open>_socket_store_address_local\<close> of \<^verbatim>\<open>network/socket.c\<close>, which
  is not among the sources: the local address of a socket is "derived from getsockname"
  on its descriptor; its size matches the family.
\<close>

definition socket_store_address_local ::
  "os_env \<Rightarrow> ptr \<Rightarrow> network_address_family_t \<Rightarrow> world \<Rightarrow> world" where
  "socket_store_address_local os sock fam w =
     (if base (heap w sock) < 0 then w
      else
        let w1 = sys (SYS_getsockname (fd (socket_base w (nat (base (heap w sock)))))) w
        in store_socket sock
             (\<lambda>s. s\<lparr>address_local :=
                      Some \<lparr>family = fam, address_size = sockaddr_size fam,
                            saddr = getsockname_saddr os\<rparr>\<rparr>) w1)"

text \<open>
  Modelled from the spec: \<^verbatim>\<open>network_address_clone\<close> of \<^verbatim>\<open>network/address.c\<close>, which is not
  among the sources: "cloning produces an independent copy".
\<close>

definition network_address_clone :: "network_address_t \<Rightarrow> network_address_t" where
  "network_address_clone a = a"

section \<open>network/tcp.c\<close>

text \<open>
  \<^verbatim>\<open>tcp_socket_initialize\<close> stores the two function pointers through \<open>sock\<close> with no
  test of the pointer, so a null \<open>sock\<close> is a fault. \<^verbatim>\<open>tcp_socket_allocate\<close> hands the
  result of the allocator to it as it is: when the allocator returns null, the
  function faults and returns nothing.
\<close>

definition tcp_socket_initialize :: "ptr \<Rightarrow> world \<Rightarrow> fault + world" where
  "tcp_socket_initialize sock w =
     (if sock = 0 then Inl NULL_DEREFERENCE
      else
        Inr (store_socket sock
               (\<lambda>s. s\<lparr>open_fn := Some TCP_FN, stream_initialize_fn := Some TCP_FN\<rparr>)
               (socket_initialize sock w)))"

definition tcp_socket_allocate :: "os_env \<Rightarrow> world \<Rightarrow> fault + ptr \<times> world" where
  "tcp_socket_allocate os w =
     (case memory_allocate os w of
        (sock, w1) \<Rightarrow>
          (case tcp_socket_initialize sock w1 of
             Inl f \<Rightarrow> Inl f
           | Inr w2 \<Rightarrow> Inr (sock, w2)))"

definition tcp_socket_listen :: "os_env \<Rightarrow> ptr \<Rightarrow> world \<Rightarrow> bool \<times> world" where
  "tcp_socket_listen os sock w =
     (if base (heap w sock) < 0 then (False, w)
      else
        let i = nat (base (heap w sock)) in
        if state (socket_base w i) \<noteq> SOCKETSTATE_NOTCONNECTED \<or>
           fd (socket_base w i) = SOCKET_INVALID \<or>
           address_local (heap w sock) = None
        then (False, w)
        else
          let w1 = sys (SYS_listen (fd (socket_base w i))) w in
          if listen_ret os = 0
          then (True,
                store_base i (\<lambda>b. b\<lparr>state := SOCKETSTATE_LISTENING\<rparr>)
                  (log_to (LOG_infof ''Listening on TCP/IP socket'') w1))
          else (False,
                log_to (LOG_errorf ERROR_SYSTEM_CALL_FAIL
                          ''Unable to listen on TCP/IP socket'') w1))"

definition tcp_socket_delay :: "ptr \<Rightarrow> world \<Rightarrow> bool" where
  "tcp_socket_delay sock w =
     (if base (heap w sock) \<ge> 0
      then flags (socket_base w (nat (base (heap w sock)))) AND SOCKETFLAG_TCPDELAY \<noteq> 0
      else False)"

definition tcp_socket_set_delay :: "ptr \<Rightarrow> bool \<Rightarrow> world \<Rightarrow> world" where
  "tcp_socket_set_delay sock delay w =
     (if base (heap w sock) < 0 then w
      else
        let i = nat (base (heap w sock));
            w1 = store_base i
                   (\<lambda>b. b\<lparr>flags := (if delay then flags b OR SOCKETFLAG_TCPDELAY
                                     else flags b AND NOT SOCKETFLAG_TCPDELAY)\<rparr>) w;
            flag = (if delay then 0 else 1)
        in if fd (socket_base w1 i) \<noteq> SOCKET_INVALID
           then sys (SYS_setsockopt_TCP_NODELAY (fd (socket_base w1 i)) flag) w1
           else w1)"

definition tcp_socket_open ::
  "os_env \<Rightarrow> ptr \<Rightarrow> network_address_family_t \<Rightarrow> world \<Rightarrow> world" where
  "tcp_socket_open os sock fam w =
     (if base (heap w sock) < 0 then w
      else
        let i = nat (base (heap w sock));
            w1 = (if fam = NETWORK_ADDRESSFAMILY_IPV6
                  then store_base i (\<lambda>b. b\<lparr>fd := socket_ret os\<rparr>) (sys (SYS_socket AF_INET6) w)
                  else store_base i (\<lambda>b. b\<lparr>fd := socket_ret os\<rparr>) (sys (SYS_socket AF_INET) w))
        in if fd (socket_base w1 i) < 0
           then store_base i (\<lambda>b. b\<lparr>fd := SOCKET_INVALID\<rparr>)
                  (log_to (LOG_errorf ERROR_SYSTEM_CALL_FAIL
                             ''Unable to open TCP/IP socket'') w1)
           else
             let w2 = log_to (LOG_debugf ''Opened TCP/IP socket'') w1
             in tcp_socket_set_delay sock
                  (flags (socket_base w2 i) AND SOCKETFLAG_TCPDELAY \<noteq> 0) w2)"

text \<open>
  \<^verbatim>\<open>tcp_socket_accept\<close>, in three parts. The first is the body between the two
  \<^verbatim>\<open>socket_set_blocking\<close> calls: the \<^verbatim>\<open>accept\<close> on the listening descriptor of slot \<open>i\<close>,
  and, when it fails with \<^verbatim>\<open>EAGAIN\<close> and a timeout was given, the \<^verbatim>\<open>select\<close> on that
  descriptor and the second \<^verbatim>\<open>accept\<close> when \<^verbatim>\<open>select\<close> reports it ready. The descriptor is
  put into the two stack-allocated \<^verbatim>\<open>fd_set\<close>s with \<^verbatim>\<open>FD_SET\<close> and no test of its range,
  so a descriptor outside the range is a fault. The result is the descriptor, the
  address buffer and the world.
\<close>

definition tcp_socket_accept_fd ::
  "os_env \<Rightarrow> nat \<Rightarrow> 32 word \<Rightarrow> network_address_t \<Rightarrow> world \<Rightarrow>
   fault + int \<times> network_address_t \<times> world" where
  "tcp_socket_accept_fd os i timeoutms remote w =
     (case sys_accept (accept_first os) (fd (socket_base w i)) remote w of
        (fd1, err, remote1, w1) \<Rightarrow>
          if fd1 < 0 then
            if timeoutms > 0 then
              if err = EAGAIN then
                if fd (socket_base w1 i) < 0 \<or> FD_SETSIZE \<le> fd (socket_base w1 i)
                then Inl FD_SET_OUT_OF_RANGE
                else
                  let w2 = sys (SYS_select (fd (socket_base w1 i) + 1)
                                  [fd (socket_base w1 i)] [fd (socket_base w1 i)]
                                  (unat timeoutms div 1000)
                                  ((unat timeoutms mod 1000) * 1000)) w1;
                      ret = select_ret os
                  in if ret > 0 then
                       (case sys_accept (accept_retry os) (fd (socket_base w2 i)) remote1 w2 of
                          (fd2, err2, remote2, w3) \<Rightarrow> Inr (fd2, remote2, w3))
                     else Inr (fd1, remote1, w2)
              else Inr (fd1, remote1, w1)
            else Inr (fd1, remote1, w1)
          else Inr (fd1, remote1, w1))"

text \<open>
  The second part is the tail of the function, from the test of the accepted
  descriptor on: the allocation of the socket record and of its base slot, and the
  set-up of the accepted socket. The test of \<open>accepted\<close> against null stands where the
  source has it, after \<^verbatim>\<open>tcp_socket_allocate\<close> has returned.
\<close>

definition tcp_socket_accept_finish ::
  "os_env \<Rightarrow> ptr \<Rightarrow> int \<Rightarrow> network_address_t \<Rightarrow> world \<Rightarrow> fault + ptr \<times> world" where
  "tcp_socket_accept_finish os sock afd remote w =
     (if afd < 0
      then Inr (0, log_to (LOG_debugf ''Accept returned invalid socket fd'') w)
      else
        case tcp_socket_allocate os w of
          Inl f \<Rightarrow> Inl f
        | Inr (accepted, w1) \<Rightarrow>
            if accepted = 0
            then Inr (0, socket_close_fd afd
                           (log_to (LOG_debugf ''Unable to allocate socket for accepted fd'') w1))
            else
              case socket_allocate_base accepted w1 of
                (b, w2) \<Rightarrow>
                  if b < 0
                  then Inr (0, socket_deallocate accepted
                                 (log_to (LOG_debugf
                                    ''Unable to allocate socket base for accepted fd'') w2))
                  else
                    let w3 = store_base (nat (base (heap w2 accepted)))
                               (\<lambda>a. a\<lparr>fd := afd, state := SOCKETSTATE_CONNECTED\<rparr>) w2;
                        w4 = store_socket accepted
                               (\<lambda>s. s\<lparr>address_remote := Some remote\<rparr>) w3;
                        w5 = socket_store_address_local os accepted (family remote) w4
                    in Inr (accepted,
                            log_to (LOG_infof ''Accepted connection on TCP/IP socket'') w5))"

text \<open>
  The whole function. \<open>the\<close> is applied to the local address only behind the test
  that it is set.
\<close>

definition tcp_socket_accept ::
  "os_env \<Rightarrow> ptr \<Rightarrow> 32 word \<Rightarrow> world \<Rightarrow> fault + ptr \<times> world" where
  "tcp_socket_accept os sock timeoutms w =
     (if base (heap w sock) < 0 then Inr (0, w)
      else
        let i = nat (base (heap w sock)) in
        if state (socket_base w i) \<noteq> SOCKETSTATE_LISTENING \<or>
           fd (socket_base w i) = SOCKET_INVALID \<or>
           address_local (heap w sock) = None
        then Inr (0, log_to (LOG_errorf ERROR_INVALID_VALUE
                               ''Unable to accept on a non-listening/unbound TCP/IP socket'') w)
        else
          let blocking = (flags (socket_base w i) AND SOCKETFLAG_BLOCKING \<noteq> 0);
              w1 = (if timeoutms > 0 \<and> blocking then socket_set_blocking sock False w else w);
              remote = network_address_clone (the (address_local (heap w1 sock)))
          in case tcp_socket_accept_fd os i timeoutms remote w1 of
               Inl f \<Rightarrow> Inl f
             | Inr (afd, remote1, w2) \<Rightarrow>
                 let w3 = (if timeoutms > 0 \<and> blocking
                           then socket_set_blocking sock True w2 else w2)
                 in tcp_socket_accept_finish os sock afd remote1 w3)"

text \<open>
  \<^verbatim>\<open>_tcp_stream_initialize\<close>. The path is formatted with the foundation library's
  \<^verbatim>\<open>PRIfixPTR\<close> conversion of the socket pointer; the macro is not part of this
  library, so the rendering of a pointer is a parameter.
\<close>

record stream_t =
  inorder :: bool
  reliable :: bool
  sequential :: bool
  path :: string

definition tcp_stream_initialize :: "(ptr \<Rightarrow> string) \<Rightarrow> ptr \<Rightarrow> stream_t \<Rightarrow> stream_t" where
  "tcp_stream_initialize PRIfixPTR sock stream =
     stream\<lparr>inorder := True, reliable := True, path := ''tcp://'' @ PRIfixPTR sock\<rparr>"

section \<open>network/event.c\<close>

text \<open>
  Modelled from the spec: the event identifiers of \<^verbatim>\<open>network/types.h\<close>, which is not
  among the sources: an event record is \<open>{id, object}\<close> with
  \<open>id \<in> {Connect, Accept, Data, Hangup}\<close> and \<open>object\<close> a socket handle.
\<close>

datatype network_event_id =
    NETWORKEVENT_CONNECT
  | NETWORKEVENT_ACCEPT
  | NETWORKEVENT_DATA
  | NETWORKEVENT_HANGUP

text \<open>
  The event stream of the foundation library, by its contract: \<open>allocate(capacity)\<close>,
  \<open>post(stream, id, flags, object, payload_ptr, payload_size)\<close>, \<open>deallocate\<close>; a
  sequence of records drained in the order they were posted.
\<close>

record event_t =
  event_id :: network_event_id
  event_flags :: nat
  object :: object_t
  payload :: "8 word list"

record event_stream_t =
  capacity :: nat
  events :: "event_t list"

definition event_stream_allocate :: "nat \<Rightarrow> event_stream_t" where
  "event_stream_allocate n = \<lparr>capacity = n, events = []\<rparr>"

definition event_post ::
  "event_stream_t \<Rightarrow> network_event_id \<Rightarrow> nat \<Rightarrow> object_t \<Rightarrow> 8 word list \<Rightarrow> event_stream_t" where
  "event_post s i f obj p =
     s\<lparr>events := events s @ [\<lparr>event_id = i, event_flags = f, object = obj, payload = p\<rparr>]\<rparr>"

text \<open>
  The state of the module: the static \<^verbatim>\<open>_network_events\<close> (\<open>None\<close> is the null pointer),
  the configured \<^verbatim>\<open>_network_config.event_stream_size\<close>, and the streams handed back to
  \<^verbatim>\<open>event_stream_deallocate\<close>, in order.
\<close>

record network_module =
  network_events :: "event_stream_t option"
  event_stream_size :: nat
  deallocated :: "event_stream_t list"

definition network_event_initialize :: "network_module \<Rightarrow> int \<times> network_module" where
  "network_event_initialize m =
     (0, if network_events m = None
         then m\<lparr>network_events := Some (event_stream_allocate (event_stream_size m))\<rparr>
         else m)"

definition network_event_finalize :: "network_module \<Rightarrow> network_module" where
  "network_event_finalize m =
     (case network_events m of
        Some s \<Rightarrow> m\<lparr>deallocated := deallocated m @ [s], network_events := None\<rparr>
      | None \<Rightarrow> m\<lparr>network_events := None\<rparr>)"

definition network_event_stream :: "network_module \<Rightarrow> event_stream_t option" where
  "network_event_stream m = network_events m"

text \<open>
  \<^verbatim>\<open>network_event_post\<close> hands the static stream to \<^verbatim>\<open>event_post\<close>. What the foundation
  library does with a null stream is not part of this library; the model posts nothing
  then.
\<close>

definition network_event_post :: "network_event_id \<Rightarrow> object_t \<Rightarrow> network_module \<Rightarrow> network_module" where
  "network_event_post i sock m =
     (case network_events m of
        Some s \<Rightarrow> m\<lparr>network_events := Some (event_post s i 0 sock [])\<rparr>
      | None \<Rightarrow> m)"

definition network_event_socket :: "event_t \<Rightarrow> object_t" where
  "network_event_socket event = object event"

section \<open>Notions used in the statements\<close>

text \<open>
  \<^verbatim>\<open>tcp_socket_accept\<close> goes on to the OS only for a socket that has a base slot, is
  listening, has a descriptor and is locally bound.
\<close>

definition can_accept :: "ptr \<Rightarrow> world \<Rightarrow> bool" where
  "can_accept sock w =
     (0 \<le> base (heap w sock) \<and>
      state (socket_base w (nat (base (heap w sock)))) = SOCKETSTATE_LISTENING \<and>
      fd (socket_base w (nat (base (heap w sock)))) \<noteq> SOCKET_INVALID \<and>
      address_local (heap w sock) \<noteq> None)"

text \<open>
  The reply of the last \<^verbatim>\<open>accept\<close> the function issues: the retry when the first call
  failed with \<^verbatim>\<open>EAGAIN\<close>, a timeout was given and \<^verbatim>\<open>select\<close> reported the descriptor ready,
  the first call otherwise.
\<close>

definition accepted_reply :: "os_env \<Rightarrow> 32 word \<Rightarrow> accept_reply" where
  "accepted_reply os timeoutms =
     (if accept_ret (accept_first os) < 0 \<and> timeoutms > 0 \<and>
         accept_errno (accept_first os) = EAGAIN \<and> select_ret os > 0
      then accept_retry os else accept_first os)"

text \<open>
  The system calls between the two changes of the blocking mode, on the listening
  descriptor \<open>lfd\<close>; and the calls of the whole first half of \<^verbatim>\<open>tcp_socket_accept\<close>.
\<close>

definition accept_calls :: "os_env \<Rightarrow> 32 word \<Rightarrow> int \<Rightarrow> syscall list" where
  "accept_calls os timeoutms lfd =
     SYS_accept lfd #
     (if accept_ret (accept_first os) < 0 \<and> timeoutms > 0 \<and>
         accept_errno (accept_first os) = EAGAIN
      then SYS_select (lfd + 1) [lfd] [lfd]
             (unat timeoutms div 1000) ((unat timeoutms mod 1000) * 1000) #
           (if select_ret os > 0 then [SYS_accept lfd] else [])
      else [])"

definition accept_trace :: "os_env \<Rightarrow> 32 word \<Rightarrow> bool \<Rightarrow> int \<Rightarrow> syscall list" where
  "accept_trace os timeoutms blocking lfd =
     (if timeoutms > 0 \<and> blocking then [SYS_set_blocking lfd False] else []) @
     accept_calls os timeoutms lfd @
     (if timeoutms > 0 \<and> blocking then [SYS_set_blocking lfd True] else [])"

text \<open>
  \<^verbatim>\<open>tcp_socket_accept\<close> reaches \<^verbatim>\<open>FD_SET\<close> (the first \<^verbatim>\<open>accept\<close> failed with \<^verbatim>\<open>EAGAIN\<close> and a
  timeout was given) with a listening descriptor \<open>lfd\<close> outside the range of an
  \<^verbatim>\<open>fd_set\<close>.
\<close>

definition select_faults :: "os_env \<Rightarrow> 32 word \<Rightarrow> int \<Rightarrow> bool" where
  "select_faults os timeoutms lfd =
     (accept_ret (accept_first os) < 0 \<and> timeoutms > 0 \<and>
      accept_errno (accept_first os) = EAGAIN \<and> (lfd < 0 \<or> FD_SETSIZE \<le> lfd))"

text \<open>The record \<^verbatim>\<open>tcp_socket_allocate\<close> leaves at the address it returns.\<close>

definition tcp_socket_fresh :: socket_t where
  "tcp_socket_fresh =
     \<lparr>base = - 1, address_local = None, address_remote = None,
      open_fn = Some TCP_FN, stream_initialize_fn = Some TCP_FN\<rparr>"

text \<open>The calls that change the blocking mode of a descriptor.\<close>

fun is_set_blocking :: "syscall \<Rightarrow> bool" where
  "is_set_blocking (SYS_set_blocking f b) = True"
| "is_set_blocking c = False"

section \<open>Example states\<close>

text \<open>
  A table of two slots. Slot 0 belongs to the socket at address 1, bound to
  127.0.0.1:8080 on descriptor 3, in the given state and with the given flags; slot 1
  is free. Every other address holds a closed socket record.
\<close>

definition example_address :: network_address_t where
  "example_address =
     \<lparr>family = NETWORK_ADDRESSFAMILY_IPV4, address_size = 16,
      saddr = [2, 0, 31, 144, 127, 0, 0, 1, 0, 0, 0, 0, 0, 0, 0, 0]\<rparr>"

definition example_peer :: sockaddr where
  "example_peer = [2, 0, 195, 80, 127, 0, 0, 1, 0, 0, 0, 0, 0, 0, 0, 0]"

definition free_slot :: socket_base_t where
  "free_slot =
     \<lparr>link = 0, fd = SOCKET_INVALID, flags = 0,
      state = SOCKETSTATE_NOTCONNECTED, last_event = 0\<rparr>"

definition example_world :: "socket_state_t \<Rightarrow> 32 word \<Rightarrow> world" where
  "example_world st fl =
     \<lparr>socket_base = (\<lambda>i. free_slot)
        (0 := \<lparr>link = 1, fd = 3, flags = fl, state = st, last_event = 0\<rparr>),
      socket_base_size = 2,
      heap = (\<lambda>p. zero_socket\<lparr>base := - 1\<rparr>)
        (1 := \<lparr>base = 0, address_local = Some example_address, address_remote = None,
               open_fn = Some TCP_FN, stream_initialize_fn = Some TCP_FN\<rparr>),
      live = {1},
      syscalls = [],
      logged = []\<rparr>"

text \<open>
  An operating system where the first \<^verbatim>\<open>accept\<close> would block, \<^verbatim>\<open>select\<close> reports one
  ready descriptor and the retried \<^verbatim>\<open>accept\<close> returns descriptor 4 for a peer at
  127.0.0.1:50000; the allocator returns address 2.
\<close>

definition example_os :: os_env where
  "example_os =
     \<lparr>listen_ret = 0, socket_ret = 5, select_ret = 1,
      accept_first = \<lparr>accept_ret = - 1, accept_errno = EAGAIN, accept_saddr = []\<rparr>,
      accept_retry = \<lparr>accept_ret = 4, accept_errno = 0, accept_saddr = example_peer\<rparr>,
      getsockname_saddr = [2, 0, 31, 144, 127, 0, 0, 1, 0, 0, 0, 0, 0, 0, 0, 0],
      memory_allocate_ret = 2\<rparr>"

text \<open>
  The example world with a listening, blocking socket whose descriptor is 1024, the
  first descriptor outside an \<^verbatim>\<open>fd_set\<close>.
\<close>

definition example_world_fd1024 :: world where
  "example_world_fd1024 =
     (example_world SOCKETSTATE_LISTENING SOCKETFLAG_BLOCKING)
       \<lparr>socket_base := (\<lambda>i. free_slot)
          (0 := \<lparr>link = 1, fd = 1024, flags = SOCKETFLAG_BLOCKING,
                 state = SOCKETSTATE_LISTENING, last_event = 0\<rparr>)\<rparr>"

lemmas example_defs =
  example_world_def example_os_def example_address_def example_peer_def free_slot_def
  zero_socket_def SOCKET_INVALID_def EAGAIN_def FD_SETSIZE_def

section \<open>Flag arithmetic\<close>

lemma and_not_and_same: "((f::32 word) AND NOT b) AND b = 0"
  by (simp add: and.assoc)

lemma and_not_or_restore: "(f::32 word) AND b = b \<Longrightarrow> (f AND NOT b) OR b = f"
  by (metis (no_types, lifting) bit.conj_cancel_left bit.disj_conj_distrib2
    or_eq_not_not_and word_ao_absorbs(6))

lemma and_one_nonzero: "(f::32 word) AND 1 \<noteq> 0 \<Longrightarrow> f AND 1 = 1"
  by (simp add: and_one_eq mod_2_eq_odd split: if_splits)

lemma and_not_disjoint: "(b::32 word) AND c = 0 \<Longrightarrow> (f AND NOT b) AND c = f AND c"
  by (metis (no_types, lifting) and.commute and.left_commute
    bit.conj_disj_distrib bit.de_Morgan_disj
    or.right_neutral word_and_not word_ao_absorbs(3) word_not_not)

lemma or_disjoint: "(b::32 word) AND c = 0 \<Longrightarrow> (f OR b) AND c = f AND c"
  by (simp add: bit.conj_disj_distrib2)

lemma blocking_restore:
  assumes "f AND SOCKETFLAG_BLOCKING \<noteq> 0"
  shows "(f AND NOT SOCKETFLAG_BLOCKING) OR SOCKETFLAG_BLOCKING = f"
proof -
  have "f AND SOCKETFLAG_BLOCKING = SOCKETFLAG_BLOCKING"
    using assms unfolding SOCKETFLAG_BLOCKING_def by (rule and_one_nonzero)
  then show ?thesis by (rule and_not_or_restore)
qed

lemma tcpdelay_nonzero: "SOCKETFLAG_TCPDELAY \<noteq> 0"
  by (simp add: SOCKETFLAG_TCPDELAY_def)

lemma tcpdelay_clear: "(f AND NOT SOCKETFLAG_TCPDELAY) AND SOCKETFLAG_TCPDELAY = 0"
  by (rule and_not_and_same)

lemma flags_disjoint:
  "SOCKETFLAG_TCPDELAY AND SOCKETFLAG_BLOCKING = 0"
  "SOCKETFLAG_BLOCKING AND SOCKETFLAG_TCPDELAY = 0"
  by (simp_all add: SOCKETFLAG_TCPDELAY_def SOCKETFLAG_BLOCKING_def)

lemma tcpdelay_keeps_blocking:
  "(f OR SOCKETFLAG_TCPDELAY) AND SOCKETFLAG_BLOCKING = f AND SOCKETFLAG_BLOCKING"
  "(f AND NOT SOCKETFLAG_TCPDELAY) AND SOCKETFLAG_BLOCKING = f AND SOCKETFLAG_BLOCKING"
  by (rule or_disjoint [OF flags_disjoint(1)], rule and_not_disjoint [OF flags_disjoint(1)])

section \<open>Sockets without a base slot\<close>

text \<open>
  C9. For a socket whose base index is negative the TCP operations return their safe
  value and leave the whole state as it was, traces included: listen returns false,
  accept returns null (it returns: the outcome is a result, not a fault), delay returns
  false and set_delay returns without effect.
\<close>

theorem negative_base_is_safe:
  assumes "base (heap w sock) < 0"
  shows "tcp_socket_listen os sock w = (False, w) \<and>
         tcp_socket_accept os sock timeoutms w = Inr (0, w) \<and>
         tcp_socket_delay sock w = False \<and>
         tcp_socket_set_delay sock delay w = w"
  using assms
  by (simp add: tcp_socket_listen_def tcp_socket_accept_def tcp_socket_delay_def
      tcp_socket_set_delay_def)

theorem negative_base_is_safe_witness:
  "base (heap (example_world SOCKETSTATE_NOTCONNECTED 0) 7) < 0 \<and>
   tcp_socket_listen example_os 7 (example_world SOCKETSTATE_NOTCONNECTED 0) =
     (False, example_world SOCKETSTATE_NOTCONNECTED 0) \<and>
   tcp_socket_accept example_os 7 100 (example_world SOCKETSTATE_NOTCONNECTED 0) =
     Inr (0, example_world SOCKETSTATE_NOTCONNECTED 0) \<and>
   tcp_socket_delay 7 (example_world SOCKETSTATE_NOTCONNECTED 0) = False \<and>
   tcp_socket_set_delay 7 True (example_world SOCKETSTATE_NOTCONNECTED 0) =
     example_world SOCKETSTATE_NOTCONNECTED 0"
proof -
  have h: "base (heap (example_world SOCKETSTATE_NOTCONNECTED 0) 7) < 0"
    by (simp add: example_defs)
  from negative_base_is_safe [OF h, of example_os 100 True] h show ?thesis
    by simp
qed

section \<open>Listening\<close>

text \<open>
  C2. \<^verbatim>\<open>tcp_socket_listen\<close> returns true only when, on entry, the socket has a base slot
  in state NotConnected with a valid descriptor and a local address (and the OS call
  succeeds), and then the state of the slot is Listening; when a precondition fails it
  returns false and changes nothing at all; whenever it returns false the base table
  is as it was, so the state is not set to Listening.
\<close>

theorem listen_contract:
  fixes os sock w
  defines "i \<equiv> nat (base (heap w sock))"
  defines "pre \<equiv> 0 \<le> base (heap w sock) \<and>
                 state (socket_base w i) = SOCKETSTATE_NOTCONNECTED \<and>
                 fd (socket_base w i) \<noteq> SOCKET_INVALID \<and>
                 address_local (heap w sock) \<noteq> None"
  shows "(fst (tcp_socket_listen os sock w) \<longrightarrow>
            pre \<and> listen_ret os = 0 \<and>
            state (socket_base (snd (tcp_socket_listen os sock w)) i) = SOCKETSTATE_LISTENING)
       \<and> (\<not> pre \<longrightarrow> tcp_socket_listen os sock w = (False, w))
       \<and> (pre \<and> listen_ret os = 0 \<longrightarrow> fst (tcp_socket_listen os sock w))
       \<and> (\<not> fst (tcp_socket_listen os sock w) \<longrightarrow>
            socket_base (snd (tcp_socket_listen os sock w)) = socket_base w)"
  unfolding i_def pre_def
  by (auto simp: tcp_socket_listen_def Let_def log_to_def sys_def store_base_def)

theorem listen_contract_witness:
  "fst (tcp_socket_listen example_os 1 (example_world SOCKETSTATE_NOTCONNECTED 0)) \<and>
   state (socket_base
            (snd (tcp_socket_listen example_os 1 (example_world SOCKETSTATE_NOTCONNECTED 0)))
            (nat (base (heap (example_world SOCKETSTATE_NOTCONNECTED 0) 1)))) =
     SOCKETSTATE_LISTENING \<and>
   tcp_socket_listen example_os 1 (example_world SOCKETSTATE_CONNECTED 0) =
     (False, example_world SOCKETSTATE_CONNECTED 0)"
proof -
  let ?w = "example_world SOCKETSTATE_NOTCONNECTED 0"
  let ?v = "example_world SOCKETSTATE_CONNECTED 0"
  have pre: "0 \<le> base (heap ?w 1)"
            "state (socket_base ?w (nat (base (heap ?w 1)))) = SOCKETSTATE_NOTCONNECTED"
            "fd (socket_base ?w (nat (base (heap ?w 1)))) \<noteq> SOCKET_INVALID"
            "address_local (heap ?w 1) \<noteq> None"
            "listen_ret example_os = 0"
    by (simp_all add: example_defs)
  have npre: "state (socket_base ?v (nat (base (heap ?v 1)))) \<noteq> SOCKETSTATE_NOTCONNECTED"
    by (simp add: example_defs)
  from listen_contract [of example_os 1 ?w] pre
  have a: "fst (tcp_socket_listen example_os 1 ?w)"
    by blast
  with listen_contract [of example_os 1 ?w]
  have b: "state (socket_base (snd (tcp_socket_listen example_os 1 ?w))
             (nat (base (heap ?w 1)))) = SOCKETSTATE_LISTENING"
    by blast
  from listen_contract [of example_os 1 ?v] npre
  have c: "tcp_socket_listen example_os 1 ?v = (False, ?v)"
    by blast
  from a b c show ?thesis by blast
qed

section \<open>Streams and events\<close>

text \<open>
  C6. Initialising the stream of a TCP socket marks it in-order and reliable and sets
  its path to \<open>tcp://\<close> followed by the rendering of the socket pointer, which is the
  identifier the functions of \<^verbatim>\<open>tcp.c\<close> take; the other flags of the stream stay.
\<close>

theorem stream_initialize_tcp:
  "inorder (tcp_stream_initialize PRIfixPTR sock stream) = True \<and>
   reliable (tcp_stream_initialize PRIfixPTR sock stream) = True \<and>
   path (tcp_stream_initialize PRIfixPTR sock stream) = ''tcp://'' @ PRIfixPTR sock \<and>
   sequential (tcp_stream_initialize PRIfixPTR sock stream) = sequential stream"
  by (simp add: tcp_stream_initialize_def)

text \<open>
  C7. \<^verbatim>\<open>network_event_initialize\<close> always returns 0; with no stream allocated it
  allocates one of the configured size, with a stream allocated it changes nothing, so
  a second call changes nothing. \<^verbatim>\<open>network_event_finalize\<close> hands the stream to the
  deallocator and resets the static pointer, and \<^verbatim>\<open>network_event_stream\<close> returns null
  afterwards.
\<close>

theorem event_lifecycle:
  "fst (network_event_initialize m) = 0 \<and>
   network_event_initialize (m\<lparr>network_events := None\<rparr>) =
     (0, m\<lparr>network_events := Some \<lparr>capacity = event_stream_size m, events = []\<rparr>\<rparr>) \<and>
   network_event_initialize (m\<lparr>network_events := Some s\<rparr>) =
     (0, m\<lparr>network_events := Some s\<rparr>) \<and>
   network_event_initialize (snd (network_event_initialize m)) =
     (0, snd (network_event_initialize m)) \<and>
   network_event_finalize (m\<lparr>network_events := Some s\<rparr>) =
     m\<lparr>network_events := None, deallocated := deallocated m @ [s]\<rparr> \<and>
   network_event_finalize (m\<lparr>network_events := None\<rparr>) = m\<lparr>network_events := None\<rparr> \<and>
   network_event_stream (network_event_finalize m) = None"
  by (simp add: network_event_initialize_def network_event_finalize_def
      network_event_stream_def event_stream_allocate_def split: option.split)

text \<open>
  C8. Posting event \<open>i\<close> for handle \<open>h\<close> appends one record to the module's event stream;
  the record carries \<open>i\<close> and \<open>h\<close>, and \<^verbatim>\<open>network_event_socket\<close> of that record is \<open>h\<close>.
\<close>

theorem event_post_roundtrip:
  "\<exists>e. network_event_stream (network_event_post i h (m\<lparr>network_events := Some s\<rparr>)) =
          Some (s\<lparr>events := events s @ [e]\<rparr>) \<and>
       event_id e = i \<and> object e = h \<and> network_event_socket e = h"
  by (rule exI [of _ "\<lparr>event_id = i, event_flags = 0, object = h, payload = []\<rparr>"])
    (simp add: network_event_post_def network_event_stream_def event_post_def
      network_event_socket_def)

section \<open>Nagle's algorithm\<close>

lemma set_delay_effect:
  assumes "0 \<le> base (heap w sock)"
  shows "tcp_socket_delay sock (tcp_socket_set_delay sock delay w) = delay"
    and "socket_blocking sock (tcp_socket_set_delay sock delay w) = socket_blocking sock w"
    and "heap (tcp_socket_set_delay sock delay w) = heap w"
    and "syscalls (tcp_socket_set_delay sock delay w) =
           syscalls w @
           (if fd (socket_base w (nat (base (heap w sock)))) \<noteq> SOCKET_INVALID
            then [SYS_setsockopt_TCP_NODELAY (fd (socket_base w (nat (base (heap w sock)))))
                    (if delay then 0 else 1)]
            else [])"
  using assms
  by (auto simp: tcp_socket_delay_def tcp_socket_set_delay_def socket_blocking_def Let_def
      store_base_def sys_def tcpdelay_nonzero tcpdelay_clear tcpdelay_keeps_blocking)

lemma open_reapplies_delay:
  assumes "0 \<le> base (heap v sock)" and "0 \<le> socket_ret os"
  shows "fd (socket_base (tcp_socket_open os sock fam v) (nat (base (heap v sock)))) = socket_ret os"
    and "tcp_socket_delay sock (tcp_socket_open os sock fam v) = tcp_socket_delay sock v"
    and "syscalls (tcp_socket_open os sock fam v) =
           syscalls v @
           [SYS_socket (if fam = NETWORK_ADDRESSFAMILY_IPV6 then AF_INET6 else AF_INET),
            SYS_setsockopt_TCP_NODELAY (socket_ret os)
              (if tcp_socket_delay sock v then 0 else 1)]"
  using assms
  by (auto simp: tcp_socket_open_def tcp_socket_delay_def tcp_socket_set_delay_def Let_def
      store_base_def sys_def log_to_def SOCKET_INVALID_def tcpdelay_nonzero tcpdelay_clear)

text \<open>
  C4. For a socket with a base slot, \<^verbatim>\<open>tcp_socket_set_delay\<close> leaves the TcpDelay flag
  set exactly when \<open>delay\<close> is true and, when the slot has a valid descriptor, sets
  \<^verbatim>\<open>TCP_NODELAY\<close> on it to 0 for \<open>delay\<close> true and to 1 for \<open>delay\<close> false, and makes no system
  call otherwise. When the socket is then opened again and the OS hands out a
  descriptor, the open function sets \<^verbatim>\<open>TCP_NODELAY\<close> on the new descriptor to the same
  value and the flag is kept; in general the open function applies the value of the
  flag it finds.
\<close>

theorem set_delay_nodelay_inverted:
  assumes "0 \<le> base (heap w sock)"
  shows "tcp_socket_delay sock (tcp_socket_set_delay sock delay w) = delay \<and>
         syscalls (tcp_socket_set_delay sock delay w) =
           syscalls w @
           (if fd (socket_base w (nat (base (heap w sock)))) \<noteq> SOCKET_INVALID
            then [SYS_setsockopt_TCP_NODELAY (fd (socket_base w (nat (base (heap w sock)))))
                    (if delay then 0 else 1)]
            else []) \<and>
         (0 \<le> socket_ret os \<longrightarrow>
            fd (socket_base (tcp_socket_open os sock fam (tcp_socket_set_delay sock delay w))
                  (nat (base (heap w sock)))) = socket_ret os \<and>
            syscalls (tcp_socket_open os sock fam (tcp_socket_set_delay sock delay w)) =
              syscalls (tcp_socket_set_delay sock delay w) @
              [SYS_socket (if fam = NETWORK_ADDRESSFAMILY_IPV6 then AF_INET6 else AF_INET),
               SYS_setsockopt_TCP_NODELAY (socket_ret os) (if delay then 0 else 1)] \<and>
            tcp_socket_delay sock
              (tcp_socket_open os sock fam (tcp_socket_set_delay sock delay w)) = delay) \<and>
         (0 \<le> base (heap v sock) \<and> 0 \<le> socket_ret os \<longrightarrow>
            syscalls (tcp_socket_open os sock fam v) =
              syscalls v @
              [SYS_socket (if fam = NETWORK_ADDRESSFAMILY_IPV6 then AF_INET6 else AF_INET),
               SYS_setsockopt_TCP_NODELAY (socket_ret os)
                 (if tcp_socket_delay sock v then 0 else 1)] \<and>
            tcp_socket_delay sock (tcp_socket_open os sock fam v) = tcp_socket_delay sock v)"
proof -
  let ?v = "tcp_socket_set_delay sock delay w"
  have b: "0 \<le> base (heap ?v sock)" "base (heap ?v sock) = base (heap w sock)"
    using assms by (simp_all add: set_delay_effect(3))
  have fdv: "fd (socket_base (tcp_socket_open os sock fam ?v) (nat (base (heap w sock)))) =
               socket_ret os" if "0 \<le> socket_ret os"
    using open_reapplies_delay(1) [of ?v sock os fam] b that by simp
  show ?thesis
    using assms b fdv
    by (simp add: set_delay_effect(1,4) open_reapplies_delay(2,3))
qed

theorem set_delay_nodelay_inverted_witness:
  "0 \<le> base (heap (example_world SOCKETSTATE_NOTCONNECTED 0) 1) \<and>
   0 \<le> socket_ret example_os \<and>
   tcp_socket_delay 1 (tcp_socket_set_delay 1 True (example_world SOCKETSTATE_NOTCONNECTED 0)) \<and>
   syscalls (tcp_socket_set_delay 1 True (example_world SOCKETSTATE_NOTCONNECTED 0)) =
     [SYS_setsockopt_TCP_NODELAY 3 0] \<and>
   syscalls (tcp_socket_set_delay 1 False (example_world SOCKETSTATE_NOTCONNECTED 0)) =
     [SYS_setsockopt_TCP_NODELAY 3 1] \<and>
   syscalls (tcp_socket_open example_os 1 NETWORK_ADDRESSFAMILY_IPV4
               (tcp_socket_set_delay 1 True (example_world SOCKETSTATE_NOTCONNECTED 0))) =
     [SYS_setsockopt_TCP_NODELAY 3 0, SYS_socket AF_INET, SYS_setsockopt_TCP_NODELAY 5 0]"
proof -
  let ?w = "example_world SOCKETSTATE_NOTCONNECTED 0"
  have b: "0 \<le> base (heap ?w 1)"
    by (simp add: example_defs)
  have f: "fd (socket_base ?w (nat (base (heap ?w 1)))) = 3" "syscalls ?w = []"
          "socket_ret example_os = 5"
    by (simp_all add: example_defs)
  from set_delay_nodelay_inverted [OF b, of True example_os NETWORK_ADDRESSFAMILY_IPV4 ?w]
       set_delay_nodelay_inverted [OF b, of False example_os NETWORK_ADDRESSFAMILY_IPV4 ?w]
       b f
  show ?thesis
    by (simp add: SOCKET_INVALID_def)
qed

section \<open>The steps of accept\<close>

lemma accept_fd_fault:
  "select_faults os t (fd (socket_base w i)) \<Longrightarrow>
   tcp_socket_accept_fd os i t a w = Inl FD_SET_OUT_OF_RANGE"
  by (auto simp: tcp_socket_accept_fd_def sys_accept_def sys_def select_faults_def)

lemma accept_fd_result:
  "\<not> select_faults os t (fd (socket_base w i)) \<Longrightarrow>
   tcp_socket_accept_fd os i t a w =
     Inr (accept_ret (accepted_reply os t),
          (if 0 \<le> accept_ret (accepted_reply os t)
           then a\<lparr>saddr := accept_saddr (accepted_reply os t)\<rparr> else a),
          w\<lparr>syscalls := syscalls w @ accept_calls os t (fd (socket_base w i))\<rparr>)"
  by (auto simp: tcp_socket_accept_fd_def sys_accept_def sys_def accepted_reply_def
      accept_calls_def select_faults_def Let_def)

lemma set_blocking_result:
  assumes "0 \<le> base (heap w sock)"
  shows "socket_set_blocking sock block w =
           w\<lparr>socket_base := (socket_base w)
                (nat (base (heap w sock)) :=
                   (socket_base w (nat (base (heap w sock))))
                     \<lparr>flags := (if block
                                then flags (socket_base w (nat (base (heap w sock)))) OR SOCKETFLAG_BLOCKING
                                else flags (socket_base w (nat (base (heap w sock)))) AND NOT SOCKETFLAG_BLOCKING)\<rparr>),
              syscalls := syscalls w @
                (if fd (socket_base w (nat (base (heap w sock)))) \<noteq> SOCKET_INVALID
                 then [SYS_set_blocking (fd (socket_base w (nat (base (heap w sock))))) block]
                 else [])\<rparr>"
  using assms
  by (simp add: socket_set_blocking_def Let_def store_base_def sys_def)

lemma allocate_null:
  "memory_allocate_ret os = 0 \<Longrightarrow> tcp_socket_allocate os w = Inl NULL_DEREFERENCE"
  by (simp add: tcp_socket_allocate_def memory_allocate_def tcp_socket_initialize_def)

lemma allocate_some:
  "memory_allocate_ret os \<noteq> 0 \<Longrightarrow>
   tcp_socket_allocate os w =
     Inr (memory_allocate_ret os,
          w\<lparr>heap := (heap w)(memory_allocate_ret os := tcp_socket_fresh),
            live := insert (memory_allocate_ret os) (live w)\<rparr>)"
  by (simp add: tcp_socket_allocate_def memory_allocate_def tcp_socket_initialize_def
      socket_initialize_def store_socket_def zero_socket_def tcp_socket_fresh_def Let_def)

lemma finish_invalid_fd:
  "afd < 0 \<Longrightarrow>
   tcp_socket_accept_finish os sock afd a w =
     Inr (0, w\<lparr>logged := logged w @ [LOG_debugf ''Accept returned invalid socket fd'']\<rparr>)"
  by (simp add: tcp_socket_accept_finish_def log_to_def)

lemma finish_no_memory:
  "0 \<le> afd \<Longrightarrow> memory_allocate_ret os = 0 \<Longrightarrow>
   tcp_socket_accept_finish os sock afd a w = Inl NULL_DEREFERENCE"
  by (simp add: tcp_socket_accept_finish_def allocate_null)

lemma finish_no_slot:
  "0 \<le> afd \<Longrightarrow> memory_allocate_ret os \<noteq> 0 \<Longrightarrow>
   find (\<lambda>i. link (socket_base w i) = 0) [0..<socket_base_size w] = None \<Longrightarrow>
   tcp_socket_accept_finish os sock afd a w =
     Inr (0, w\<lparr>heap := (heap w)(memory_allocate_ret os := tcp_socket_fresh),
               live := insert (memory_allocate_ret os) (live w) - {memory_allocate_ret os},
               logged := logged w @
                 [LOG_debugf ''Unable to allocate socket base for accepted fd'']\<rparr>)"
  by (simp add: tcp_socket_accept_finish_def allocate_some socket_allocate_base_def
      log_to_def socket_deallocate_def socket_free_base_def tcp_socket_fresh_def)

lemma finish_ok:
  "0 \<le> afd \<Longrightarrow> memory_allocate_ret os \<noteq> 0 \<Longrightarrow>
   find (\<lambda>i. link (socket_base w i) = 0) [0..<socket_base_size w] = Some j \<Longrightarrow>
   tcp_socket_accept_finish os sock afd a w =
     Inr (memory_allocate_ret os,
      w\<lparr>socket_base := (socket_base w)
           (j := \<lparr>link = memory_allocate_ret os, fd = afd, flags = 0,
                  state = SOCKETSTATE_CONNECTED, last_event = 0\<rparr>),
        heap := (heap w)
           (memory_allocate_ret os :=
              \<lparr>base = int j,
               address_local = Some \<lparr>family = family a, address_size = sockaddr_size (family a),
                                     saddr = getsockname_saddr os\<rparr>,
               address_remote = Some a,
               open_fn = Some TCP_FN, stream_initialize_fn = Some TCP_FN\<rparr>),
        live := insert (memory_allocate_ret os) (live w),
        syscalls := syscalls w @ [SYS_getsockname afd],
        logged := logged w @ [LOG_infof ''Accepted connection on TCP/IP socket'']\<rparr>)"
  by (simp add: tcp_socket_accept_finish_def allocate_some socket_allocate_base_def
      log_to_def store_socket_def store_base_def socket_store_address_local_def sys_def
      tcp_socket_fresh_def Let_def)

lemma accept_unfold_fault:
  assumes b: "0 \<le> base (heap w sock)"
      and st: "state (socket_base w (nat (base (heap w sock)))) = SOCKETSTATE_LISTENING"
      and f: "fd (socket_base w (nat (base (heap w sock)))) \<noteq> SOCKET_INVALID"
      and l: "address_local (heap w sock) = Some local"
      and sf: "select_faults os t (fd (socket_base w (nat (base (heap w sock)))))"
  shows "tcp_socket_accept os sock t w = Inl FD_SET_OUT_OF_RANGE"
proof (cases "t > 0 \<and> flags (socket_base w (nat (base (heap w sock)))) AND SOCKETFLAG_BLOCKING \<noteq> 0")
  case False
  then show ?thesis
    using b st f l sf
    by (auto simp: tcp_socket_accept_def Let_def accept_fd_fault)
next
  case True
  then show ?thesis
    using b st f l sf
    by (simp add: tcp_socket_accept_def Let_def accept_fd_fault set_blocking_result)
qed

lemma accept_unfold:
  assumes b: "0 \<le> base (heap w sock)"
      and st: "state (socket_base w (nat (base (heap w sock)))) = SOCKETSTATE_LISTENING"
      and f: "fd (socket_base w (nat (base (heap w sock)))) \<noteq> SOCKET_INVALID"
      and l: "address_local (heap w sock) = Some local"
      and nf: "\<not> select_faults os t (fd (socket_base w (nat (base (heap w sock)))))"
  shows "tcp_socket_accept os sock t w =
           tcp_socket_accept_finish os sock (accept_ret (accepted_reply os t))
             (if 0 \<le> accept_ret (accepted_reply os t)
              then local\<lparr>saddr := accept_saddr (accepted_reply os t)\<rparr> else local)
             (w\<lparr>syscalls := syscalls w @
                  accept_trace os t
                    (flags (socket_base w (nat (base (heap w sock)))) AND SOCKETFLAG_BLOCKING \<noteq> 0)
                    (fd (socket_base w (nat (base (heap w sock)))))\<rparr>)"
proof (cases "t > 0 \<and> flags (socket_base w (nat (base (heap w sock)))) AND SOCKETFLAG_BLOCKING \<noteq> 0")
  case False
  then show ?thesis
    using b st f l nf
    by (auto simp: tcp_socket_accept_def Let_def accept_fd_result network_address_clone_def
        accept_trace_def)
next
  case True
  then show ?thesis
    using b st f l nf
    by (simp add: tcp_socket_accept_def Let_def accept_fd_result network_address_clone_def
        accept_trace_def set_blocking_result blocking_restore)
qed

lemma accept_refused:
  "\<not> can_accept sock w \<Longrightarrow>
   tcp_socket_accept os sock t w =
     Inr (0, if 0 \<le> base (heap w sock)
             then w\<lparr>logged := logged w @
                    [LOG_errorf ERROR_INVALID_VALUE
                       ''Unable to accept on a non-listening/unbound TCP/IP socket'']\<rparr>
             else w)"
  by (auto simp: can_accept_def tcp_socket_accept_def Let_def log_to_def)

lemma find_free_iff:
  "(find (\<lambda>i. link (socket_base w i) = 0) [0..<socket_base_size w] = None) =
   (\<forall>j < socket_base_size w. link (socket_base w j) \<noteq> 0)"
  by (auto simp: find_None_iff)

lemma find_free_Some:
  "find (\<lambda>i. link (socket_base w i) = 0) [0..<socket_base_size w] = Some j \<Longrightarrow>
   j < socket_base_size w \<and> link (socket_base w j) = 0"
  by (auto simp: find_Some_iff)

section \<open>Accepting on a socket that cannot accept\<close>

text \<open>
  C5, as the code has it. When the socket has a base slot and is not listening, or has
  no valid descriptor, or has no local address, \<^verbatim>\<open>tcp_socket_accept\<close> returns null, logs
  one error and leaves everything else, the state of the socket included, as it was.
  When the socket has no base slot, it returns null and leaves everything as it was:
  it logs nothing.
\<close>

theorem accept_not_listening:
  assumes "\<not> can_accept sock w"
  shows "tcp_socket_accept os sock timeoutms w =
           Inr (0, if 0 \<le> base (heap w sock)
                   then w\<lparr>logged := logged w @
                          [LOG_errorf ERROR_INVALID_VALUE
                             ''Unable to accept on a non-listening/unbound TCP/IP socket'']\<rparr>
                   else w)"
  using assms by (rule accept_refused)

theorem accept_not_listening_witness:
  "\<not> can_accept 1 (example_world SOCKETSTATE_NOTCONNECTED 0) \<and>
   0 \<le> base (heap (example_world SOCKETSTATE_NOTCONNECTED 0) 1) \<and>
   tcp_socket_accept example_os 1 100 (example_world SOCKETSTATE_NOTCONNECTED 0) =
     Inr (0, (example_world SOCKETSTATE_NOTCONNECTED 0)
          \<lparr>logged := logged (example_world SOCKETSTATE_NOTCONNECTED 0) @
             [LOG_errorf ERROR_INVALID_VALUE
                ''Unable to accept on a non-listening/unbound TCP/IP socket'']\<rparr>)"
proof -
  let ?w = "example_world SOCKETSTATE_NOTCONNECTED 0"
  have n: "\<not> can_accept 1 ?w"
    by (simp add: can_accept_def example_defs)
  have b: "0 \<le> base (heap ?w 1)"
    by (simp add: example_defs)
  have "tcp_socket_accept example_os 1 100 ?w =
          Inr (0, if 0 \<le> base (heap ?w 1)
                  then ?w\<lparr>logged := logged ?w @
                         [LOG_errorf ERROR_INVALID_VALUE
                            ''Unable to accept on a non-listening/unbound TCP/IP socket'']\<rparr>
                  else ?w)"
    by (rule accept_not_listening [OF n])
  with b have "tcp_socket_accept example_os 1 100 ?w =
          Inr (0, ?w\<lparr>logged := logged ?w @
                         [LOG_errorf ERROR_INVALID_VALUE
                            ''Unable to accept on a non-listening/unbound TCP/IP socket'']\<rparr>)"
    by (simp only: if_True)
  with n b show ?thesis
    by blast
qed

text \<open>
  C5 as the spec words it covers every socket whose local address is not set. The
  socket at address 7 of the example world has no local address and no base slot:
  \<^verbatim>\<open>tcp_socket_accept\<close> returns null for it and the log stays empty.
\<close>

theorem accept_not_listening_counterexample:
  "address_local (heap (example_world SOCKETSTATE_NOTCONNECTED 0) 7) = None \<and>
   tcp_socket_accept example_os 7 100 (example_world SOCKETSTATE_NOTCONNECTED 0) =
     Inr (0, example_world SOCKETSTATE_NOTCONNECTED 0) \<and>
   logged (example_world SOCKETSTATE_NOTCONNECTED 0) = []"
proof -
  let ?w = "example_world SOCKETSTATE_NOTCONNECTED 0"
  have a: "address_local (heap ?w 7) = None" "logged ?w = []" "\<not> 0 \<le> base (heap ?w 7)"
    by (simp_all add: example_defs)
  have n: "\<not> can_accept 7 ?w"
    using a(3) by (simp add: can_accept_def)
  have "tcp_socket_accept example_os 7 100 ?w = Inr (0, ?w)"
    unfolding accept_refused [OF n] using a(3) by (simp only: if_False)
  with a show ?thesis
    by blast
qed

section \<open>The outcomes of accept\<close>

text \<open>
  C1. Let the allocator return null or an address that is not in use. When
  \<^verbatim>\<open>tcp_socket_accept\<close> returns, it returns a socket exactly when the socket can accept,
  the OS hands over a descriptor, the allocator returns a record and the base table has
  a free slot. The socket returned is then newly allocated, is a TCP socket, and is
  linked to a base slot in state Connected that holds the accepted descriptor; its
  remote address is the clone of the listener's local address with the peer address
  the OS stored in it, and its local address is what \<^verbatim>\<open>getsockname\<close> stored for the new
  descriptor, the last system call made. When it returns null, the set of live socket
  records is as before, and so is the base table. The function does not return on
  every failure: it has no result when it reaches \<^verbatim>\<open>FD_SET\<close> with a descriptor out of
  range, and when the OS has handed over a descriptor and the allocator returns null;
  in the latter case, whenever it is reached, the outcome is the null dereference in
  \<^verbatim>\<open>tcp_socket_initialize\<close>, not a null result.
\<close>

theorem accept_success_connected:
  assumes fresh: "memory_allocate_ret os \<notin> live w"
  shows "(case tcp_socket_accept os sock timeoutms w of
            Inl f \<Rightarrow>
              can_accept sock w \<and>
              (select_faults os timeoutms (fd (socket_base w (nat (base (heap w sock))))) \<or>
               0 \<le> accept_ret (accepted_reply os timeoutms) \<and> memory_allocate_ret os = 0)
          | Inr (accepted, w') \<Rightarrow>
              (accepted \<noteq> 0 \<longleftrightarrow>
                 can_accept sock w \<and> 0 \<le> accept_ret (accepted_reply os timeoutms) \<and>
                 memory_allocate_ret os \<noteq> 0 \<and>
                 (\<exists>j < socket_base_size w. link (socket_base w j) = 0)) \<and>
              (accepted \<noteq> 0 \<longrightarrow>
                 accepted \<notin> live w \<and> accepted \<in> live w' \<and>
                 open_fn (heap w' accepted) = Some TCP_FN \<and>
                 stream_initialize_fn (heap w' accepted) = Some TCP_FN \<and>
                 0 \<le> base (heap w' accepted) \<and>
                 link (socket_base w' (nat (base (heap w' accepted)))) = accepted \<and>
                 state (socket_base w' (nat (base (heap w' accepted)))) =
                   SOCKETSTATE_CONNECTED \<and>
                 fd (socket_base w' (nat (base (heap w' accepted)))) =
                   accept_ret (accepted_reply os timeoutms) \<and>
                 address_remote (heap w' accepted) =
                   map_option (\<lambda>l. l\<lparr>saddr := accept_saddr (accepted_reply os timeoutms)\<rparr>)
                     (address_local (heap w sock)) \<and>
                 address_local (heap w' accepted) =
                   map_option (\<lambda>l. \<lparr>family = family l, address_size = sockaddr_size (family l),
                                      saddr = getsockname_saddr os\<rparr>)
                     (address_local (heap w sock)) \<and>
                 last (syscalls w') =
                   SYS_getsockname (accept_ret (accepted_reply os timeoutms))) \<and>
              (accepted = 0 \<longrightarrow> live w' = live w \<and> socket_base w' = socket_base w))
       \<and> (can_accept sock w \<and>
           \<not> select_faults os timeoutms (fd (socket_base w (nat (base (heap w sock))))) \<and>
           0 \<le> accept_ret (accepted_reply os timeoutms) \<and> memory_allocate_ret os = 0 \<longrightarrow>
           tcp_socket_accept os sock timeoutms w = Inl NULL_DEREFERENCE)"
proof (cases "can_accept sock w")
  case False
  then show ?thesis
    by (simp add: accept_refused)
next
  case True
  then obtain local where l: "address_local (heap w sock) = Some local"
    by (auto simp: can_accept_def)
  let ?lfd = "fd (socket_base w (nat (base (heap w sock))))"
  show ?thesis
  proof (cases "select_faults os timeoutms ?lfd")
    case sf: True
    with True l show ?thesis
      by (simp add: accept_unfold_fault can_accept_def)
  next
    case nf: False
    from True l nf have unf: "tcp_socket_accept os sock timeoutms w =
           tcp_socket_accept_finish os sock (accept_ret (accepted_reply os timeoutms))
             (if 0 \<le> accept_ret (accepted_reply os timeoutms)
              then local\<lparr>saddr := accept_saddr (accepted_reply os timeoutms)\<rparr> else local)
             (w\<lparr>syscalls := syscalls w @
                  accept_trace os timeoutms
                    (flags (socket_base w (nat (base (heap w sock)))) AND SOCKETFLAG_BLOCKING \<noteq> 0)
                    ?lfd\<rparr>)"
      by (intro accept_unfold) (simp_all add: can_accept_def)
    let ?afd = "accept_ret (accepted_reply os timeoutms)"
    let ?p = "memory_allocate_ret os"
    let ?free = "find (\<lambda>i. link (socket_base w i) = 0) [0..<socket_base_size w]"
    consider (nofd) "?afd < 0"
      | (nomem) "0 \<le> ?afd" "?p = 0"
      | (noslot) "0 \<le> ?afd" "?p \<noteq> 0" "?free = None"
      | (ok) j where "0 \<le> ?afd" "?p \<noteq> 0" "?free = Some j"
      by (cases ?free) force+
    then show ?thesis
    proof cases
      case nofd
      with True l fresh nf show ?thesis
        by (simp add: unf can_accept_def finish_invalid_fd)
    next
      case nomem
      with True l fresh nf show ?thesis
        by (simp add: unf can_accept_def finish_no_memory)
    next
      case noslot
      with True l fresh nf show ?thesis
        by (auto simp: unf can_accept_def finish_no_slot find_free_iff)
    next
      case ok
      from ok(3) have j: "j < socket_base_size w" "link (socket_base w j) = 0"
        using find_free_Some by auto
      with ok True l fresh nf show ?thesis
        by (auto simp: unf can_accept_def finish_ok)
    qed
  qed
qed

lemma ex_listening:
  "can_accept 1 (example_world SOCKETSTATE_LISTENING fl)"
  by (simp add: can_accept_def example_defs)

lemma ex_reply:
  "accepted_reply example_os 100 = accept_retry example_os"
  "accepted_reply (example_os\<lparr>memory_allocate_ret := 0\<rparr>) 100 = accept_retry example_os"
  by (simp_all add: accepted_reply_def example_defs)

lemma ex_in_range:
  "\<not> select_faults os t
       (fd (socket_base (example_world SOCKETSTATE_LISTENING fl)
              (nat (base (heap (example_world SOCKETSTATE_LISTENING fl) 1)))))"
  by (simp add: select_faults_def example_defs)

theorem accept_success_connected_witness:
  "memory_allocate_ret example_os \<notin> live (example_world SOCKETSTATE_LISTENING 1) \<and>
   (\<exists>accepted w'.
      tcp_socket_accept example_os 1 100 (example_world SOCKETSTATE_LISTENING 1) =
        Inr (accepted, w') \<and>
      accepted \<noteq> 0 \<and>
      state (socket_base w' (nat (base (heap w' accepted)))) = SOCKETSTATE_CONNECTED \<and>
      address_remote (heap w' accepted) = Some (example_address\<lparr>saddr := example_peer\<rparr>)) \<and>
   tcp_socket_accept (example_os\<lparr>memory_allocate_ret := 0\<rparr>) 1 100
     (example_world SOCKETSTATE_LISTENING 1) = Inl NULL_DEREFERENCE"
proof -
  let ?w = "example_world SOCKETSTATE_LISTENING 1"
  let ?os0 = "example_os\<lparr>memory_allocate_ret := 0\<rparr>"
  let ?lfd = "fd (socket_base ?w (nat (base (heap ?w 1))))"
  have fresh: "memory_allocate_ret example_os \<notin> live ?w" "memory_allocate_ret ?os0 \<notin> live ?w"
    by (simp_all add: example_defs)
  have mem: "memory_allocate_ret example_os \<noteq> 0" "memory_allocate_ret ?os0 = 0"
    by (simp_all add: example_defs)
  have afd: "0 \<le> accept_ret (accepted_reply example_os 100)"
            "0 \<le> accept_ret (accepted_reply ?os0 100)"
    by (simp_all add: ex_reply) (simp_all add: example_defs)
  have slot: "\<exists>j < socket_base_size ?w. link (socket_base ?w j) = 0"
  proof -
    have "(1::nat) < socket_base_size ?w \<and> link (socket_base ?w 1) = 0"
      by (simp add: example_defs)
    then show ?thesis by blast
  qed
  have al: "address_local (heap ?w 1) = Some example_address"
    by (simp add: example_defs)
  have peer: "accept_saddr (accepted_reply example_os 100) = example_peer"
    by (simp add: ex_reply) (simp add: example_defs)
  note th = accept_success_connected [OF fresh(1), of 1 100]
  note th0 = accept_success_connected [OF fresh(2), of 1 100]
  have one: "\<exists>accepted w'.
      tcp_socket_accept example_os 1 100 ?w = Inr (accepted, w') \<and> accepted \<noteq> 0 \<and>
      state (socket_base w' (nat (base (heap w' accepted)))) = SOCKETSTATE_CONNECTED \<and>
      address_remote (heap w' accepted) = Some (example_address\<lparr>saddr := example_peer\<rparr>)"
  proof (cases "tcp_socket_accept example_os 1 100 ?w")
    case (Inl f)
    with th have "select_faults example_os 100 ?lfd \<or>
                  0 \<le> accept_ret (accepted_reply example_os 100) \<and>
                  memory_allocate_ret example_os = 0"
      by simp
    with mem(1) ex_in_range [of example_os 100 1] have False
      by simp
    then show ?thesis ..
  next
    case (Inr r)
    obtain a w' where r: "r = (a, w')"
      by (cases r)
    from th Inr r have
      iff: "(a \<noteq> 0) =
             (can_accept 1 ?w \<and> 0 \<le> accept_ret (accepted_reply example_os 100) \<and>
              memory_allocate_ret example_os \<noteq> 0 \<and>
              (\<exists>j < socket_base_size ?w. link (socket_base ?w j) = 0))"
      and imp: "a \<noteq> 0 \<longrightarrow>
             state (socket_base w' (nat (base (heap w' a)))) = SOCKETSTATE_CONNECTED \<and>
             address_remote (heap w' a) =
               map_option (\<lambda>l. l\<lparr>saddr := accept_saddr (accepted_reply example_os 100)\<rparr>)
                 (address_local (heap ?w 1))"
      by simp_all
    from iff ex_listening [of 1] afd(1) mem(1) slot have a: "a \<noteq> 0"
      by blast
    with imp have "state (socket_base w' (nat (base (heap w' a)))) = SOCKETSTATE_CONNECTED"
      and "address_remote (heap w' a) =
             map_option (\<lambda>l. l\<lparr>saddr := accept_saddr (accepted_reply example_os 100)\<rparr>)
               (address_local (heap ?w 1))"
      by blast+
    with a Inr r al peer show ?thesis
      by simp
  qed
  from th0 ex_listening [of 1] ex_in_range [of ?os0 100 1] afd(2) mem(2)
  have two: "tcp_socket_accept ?os0 1 100 ?w = Inl NULL_DEREFERENCE"
    by blast
  from fresh(1) one two show ?thesis
    by blast
qed

section \<open>Accept when the allocation fails\<close>

text \<open>
  C10, against the code. Let the socket be able to accept and be a live record, let the
  allocator return null or an unused address, and let the OS hand over a descriptor
  (without the function reaching \<^verbatim>\<open>FD_SET\<close> out of range). When the allocator returns
  null, \<^verbatim>\<open>tcp_socket_accept\<close> does not get to its test of \<open>accepted\<close>: the null pointer is
  dereferenced in \<^verbatim>\<open>tcp_socket_initialize\<close>, so the accepted descriptor is not closed and
  nothing is returned. When the record is allocated but the base table has no free
  slot, the function deallocates the record and returns null; the live records are as
  before, the state of the listening socket is still Listening, and no system call is
  made after the blocking mode is restored.
\<close>

theorem accept_allocation_failure:
  assumes ca: "can_accept sock w"
      and lv: "sock \<in> live w"
      and fresh: "memory_allocate_ret os \<notin> live w"
      and afd: "0 \<le> accept_ret (accepted_reply os timeoutms)"
      and nf: "\<not> select_faults os timeoutms (fd (socket_base w (nat (base (heap w sock)))))"
  shows "(memory_allocate_ret os = 0 \<longrightarrow>
            tcp_socket_accept os sock timeoutms w = Inl NULL_DEREFERENCE)
       \<and> (memory_allocate_ret os \<noteq> 0 \<and>
           (\<forall>j < socket_base_size w. link (socket_base w j) \<noteq> 0) \<longrightarrow>
            (\<exists>w'. tcp_socket_accept os sock timeoutms w = Inr (0, w') \<and>
                  state (socket_base w' (nat (base (heap w' sock)))) = SOCKETSTATE_LISTENING \<and>
                  live w' = live w \<and>
                  memory_allocate_ret os \<notin> live w' \<and>
                  syscalls w' =
                    syscalls w @
                    accept_trace os timeoutms (socket_blocking sock w)
                      (fd (socket_base w (nat (base (heap w sock)))))))"
proof -
  from ca obtain local where l: "address_local (heap w sock) = Some local"
    by (auto simp: can_accept_def)
  from ca have b: "0 \<le> base (heap w sock)"
    by (simp add: can_accept_def)
  have unf: "tcp_socket_accept os sock timeoutms w =
           tcp_socket_accept_finish os sock (accept_ret (accepted_reply os timeoutms))
             (if 0 \<le> accept_ret (accepted_reply os timeoutms)
              then local\<lparr>saddr := accept_saddr (accepted_reply os timeoutms)\<rparr> else local)
             (w\<lparr>syscalls := syscalls w @
                  accept_trace os timeoutms
                    (flags (socket_base w (nat (base (heap w sock)))) AND SOCKETFLAG_BLOCKING \<noteq> 0)
                    (fd (socket_base w (nat (base (heap w sock)))))\<rparr>)"
    using ca l nf by (intro accept_unfold) (simp_all add: can_accept_def)
  from lv fresh have ne: "memory_allocate_ret os \<noteq> sock"
    by auto
  show ?thesis
  proof (cases "memory_allocate_ret os = 0")
    case True
    with afd show ?thesis
      by (simp add: unf finish_no_memory)
  next
    case False
    show ?thesis
    proof (cases "\<forall>j < socket_base_size w. link (socket_base w j) \<noteq> 0")
      case full: True
      then have "find (\<lambda>i. link (socket_base w i) = 0) [0..<socket_base_size w] = None"
        by (simp add: find_free_iff)
      with False ca l afd fresh b ne show ?thesis
        by (simp add: unf can_accept_def finish_no_slot socket_blocking_def)
    next
      case False
      then show ?thesis
        using \<open>memory_allocate_ret os \<noteq> 0\<close> by blast
    qed
  qed
qed

theorem accept_allocation_failure_witness:
  "can_accept 1 (example_world SOCKETSTATE_LISTENING 1) \<and>
   1 \<in> live (example_world SOCKETSTATE_LISTENING 1) \<and>
   0 \<le> accept_ret (accepted_reply example_os 100) \<and>
   memory_allocate_ret (example_os\<lparr>memory_allocate_ret := 0\<rparr>) = 0 \<and>
   tcp_socket_accept (example_os\<lparr>memory_allocate_ret := 0\<rparr>) 1 100
     (example_world SOCKETSTATE_LISTENING 1) = Inl NULL_DEREFERENCE \<and>
   (\<exists>w'. tcp_socket_accept example_os 1 100
            ((example_world SOCKETSTATE_LISTENING 1)\<lparr>socket_base_size := 1\<rparr>) = Inr (0, w') \<and>
         2 \<notin> live w')"
proof -
  let ?w = "example_world SOCKETSTATE_LISTENING 1"
  let ?v = "?w\<lparr>socket_base_size := 1\<rparr>"
  let ?os = "example_os\<lparr>memory_allocate_ret := 0\<rparr>"
  have ca: "can_accept 1 ?w" "can_accept 1 ?v"
    by (simp_all add: can_accept_def example_defs)
  have lv: "1 \<in> live ?w" "1 \<in> live ?v"
    by (simp_all add: example_defs)
  have fresh: "memory_allocate_ret ?os \<notin> live ?w" "memory_allocate_ret example_os \<notin> live ?v"
    by (simp_all add: example_defs)
  have afd: "0 \<le> accept_ret (accepted_reply ?os 100)"
            "0 \<le> accept_ret (accepted_reply example_os 100)"
    by (simp_all add: accepted_reply_def example_defs)
  have nf: "\<not> select_faults ?os 100 (fd (socket_base ?w (nat (base (heap ?w 1)))))"
           "\<not> select_faults example_os 100 (fd (socket_base ?v (nat (base (heap ?v 1)))))"
    by (simp_all add: select_faults_def example_defs)
  have nomem: "memory_allocate_ret ?os = 0" "memory_allocate_ret example_os \<noteq> 0"
              "memory_allocate_ret example_os = 2"
    by (simp_all add: example_defs)
  have full: "\<forall>j < socket_base_size ?v. link (socket_base ?v j) \<noteq> 0"
    by (simp add: example_defs)
  note a = accept_allocation_failure [OF ca(1) lv(1) fresh(1) afd(1) nf(1)]
  note b = accept_allocation_failure [OF ca(2) lv(2) fresh(2) afd(2) nf(2)]
  from a nomem(1) have a1: "tcp_socket_accept ?os 1 100 ?w = Inl NULL_DEREFERENCE"
    by blast
  from b nomem(2) full obtain w' where
    w': "tcp_socket_accept example_os 1 100 ?v = Inr (0, w')"
        "memory_allocate_ret example_os \<notin> live w'"
    by blast
  from w'(2) have "2 \<notin> live w'"
    by (simp add: nomem(3))
  with w'(1) have b1: "\<exists>w'. tcp_socket_accept example_os 1 100 ?v = Inr (0, w') \<and> 2 \<notin> live w'"
    by blast
  from ca(1) lv(1) afd(2) nomem(1) a1 b1 show ?thesis
    by blast
qed

section \<open>The blocking mode across accept\<close>

lemma accept_calls_no_set_blocking: "filter is_set_blocking (accept_calls os t lfd) = []"
  by (simp add: accept_calls_def)

lemma select_waits_timeoutms:
  "SYS_select n r e s us \<in> set (accept_calls os t lfd) \<Longrightarrow>
   n = lfd + 1 \<and> r = [lfd] \<and> e = [lfd] \<and> 1000 * s + us div 1000 = unat t"
  by (auto simp: accept_calls_def split: if_splits)

lemma finish_fault:
  assumes "tcp_socket_accept_finish os sock afd a v = Inl f"
  shows "f = NULL_DEREFERENCE \<and> 0 \<le> afd \<and> memory_allocate_ret os = 0"
proof -
  let ?free = "find (\<lambda>i. link (socket_base v i) = 0) [0..<socket_base_size v]"
  consider (nofd) "afd < 0"
    | (nomem) "0 \<le> afd" "memory_allocate_ret os = 0"
    | (noslot) "0 \<le> afd" "memory_allocate_ret os \<noteq> 0" "?free = None"
    | (ok) j where "0 \<le> afd" "memory_allocate_ret os \<noteq> 0" "?free = Some j"
    by (cases ?free) force+
  then show ?thesis
  proof cases
  case nofd
  with assms show ?thesis by (simp add: finish_invalid_fd)
next
  case nomem
  with assms show ?thesis by (simp add: finish_no_memory)
next
  case noslot
  with assms show ?thesis by (simp add: finish_no_slot)
next
  case ok
  with assms show ?thesis by (simp add: finish_ok)
  qed
qed

lemma finish_syscalls:
  assumes "tcp_socket_accept_finish os sock afd a v = Inr (r, v')"
  shows "\<exists>rest. syscalls v' = syscalls v @ rest \<and>
          filter is_set_blocking rest = [] \<and> (\<forall>f. SYS_accept f \<notin> set rest)"
proof -
  let ?free = "find (\<lambda>i. link (socket_base v i) = 0) [0..<socket_base_size v]"
  consider (nofd) "afd < 0"
    | (nomem) "0 \<le> afd" "memory_allocate_ret os = 0"
    | (noslot) "0 \<le> afd" "memory_allocate_ret os \<noteq> 0" "?free = None"
    | (ok) j where "0 \<le> afd" "memory_allocate_ret os \<noteq> 0" "?free = Some j"
    by (cases ?free) force+
  then show ?thesis
  proof cases
  case nofd
  with assms show ?thesis by (auto simp: finish_invalid_fd)
next
  case nomem
  with assms show ?thesis by (simp add: finish_no_memory)
next
  case noslot
  with assms show ?thesis by (auto simp: finish_no_slot)
next
  case ok
  with assms show ?thesis by (auto simp: finish_ok)
  qed
qed

lemma finish_keeps_blocking:
  assumes b: "0 \<le> base (heap v sock)"
      and lk: "link (socket_base v (nat (base (heap v sock)))) \<noteq> 0"
      and ne: "memory_allocate_ret os \<noteq> sock"
      and res: "tcp_socket_accept_finish os sock afd a v = Inr (r, v')"
  shows "socket_blocking sock v' = socket_blocking sock v"
proof -
  let ?free = "find (\<lambda>i. link (socket_base v i) = 0) [0..<socket_base_size v]"
  consider (nofd) "afd < 0"
    | (nomem) "0 \<le> afd" "memory_allocate_ret os = 0"
    | (noslot) "0 \<le> afd" "memory_allocate_ret os \<noteq> 0" "?free = None"
    | (ok) j where "0 \<le> afd" "memory_allocate_ret os \<noteq> 0" "?free = Some j"
    by (cases ?free) force+
  then show ?thesis
  proof cases
  case nofd
  with res show ?thesis by (auto simp: finish_invalid_fd socket_blocking_def)
next
  case nomem
  with res show ?thesis by (simp add: finish_no_memory)
next
  case noslot
  with res ne show ?thesis by (auto simp: finish_no_slot socket_blocking_def)
next
  case ok
  from ok(3) have "link (socket_base v j) = 0"
    using find_free_Some by auto
  with lk have "j \<noteq> nat (base (heap v sock))"
    by auto
  with ok ne b res show ?thesis by (auto simp: finish_ok socket_blocking_def)
  qed
qed

text \<open>
  C3, as the code has it. Let the socket be a live record whose base slot, if it has
  one, is linked, let its descriptor be in the range of an \<^verbatim>\<open>fd_set\<close> when it can accept,
  and let the allocator return null or an unused address. Then \<^verbatim>\<open>tcp_socket_accept\<close>
  returns unless it runs into the null dereference of the failed allocation, and on
  every return path the blocking mode of the socket is the mode before the call. The
  call changes the blocking mode of the descriptor twice, to non-blocking and back to
  blocking, when the socket can accept, is blocking and \<open>timeoutms > 0\<close>, and never
  otherwise. In that case the system calls are: switch to non-blocking; \<^verbatim>\<open>accept\<close>; when
  that fails with \<^verbatim>\<open>EAGAIN\<close>, \<^verbatim>\<open>select\<close> on the listening descriptor with a timeout of
  \<open>timeoutms\<close> milliseconds, and one more \<^verbatim>\<open>accept\<close> only when \<^verbatim>\<open>select\<close> returned a positive
  count; switch to blocking; and after that no further \<^verbatim>\<open>accept\<close> and no further change
  of mode.
\<close>

theorem accept_restores_blocking_mode:
  assumes lv: "sock \<in> live w"
      and fresh: "memory_allocate_ret os \<notin> live w"
      and lk: "0 \<le> base (heap w sock) \<longrightarrow>
               link (socket_base w (nat (base (heap w sock)))) \<noteq> 0"
      and range: "can_accept sock w \<longrightarrow>
               0 \<le> fd (socket_base w (nat (base (heap w sock)))) \<and>
               fd (socket_base w (nat (base (heap w sock)))) < FD_SETSIZE"
  shows "case tcp_socket_accept os sock timeoutms w of
           Inl f \<Rightarrow>
             f = NULL_DEREFERENCE \<and> can_accept sock w \<and>
             0 \<le> accept_ret (accepted_reply os timeoutms) \<and> memory_allocate_ret os = 0
         | Inr (accepted, w') \<Rightarrow>
             socket_blocking sock w' = socket_blocking sock w \<and>
             filter is_set_blocking (drop (length (syscalls w)) (syscalls w')) =
               (if can_accept sock w \<and> timeoutms > 0 \<and> socket_blocking sock w
                then [SYS_set_blocking (fd (socket_base w (nat (base (heap w sock))))) False,
                      SYS_set_blocking (fd (socket_base w (nat (base (heap w sock))))) True]
                else []) \<and>
             (can_accept sock w \<and> timeoutms > 0 \<and> socket_blocking sock w \<longrightarrow>
                (\<exists>rest.
                   syscalls w' =
                     syscalls w @
                     [SYS_set_blocking (fd (socket_base w (nat (base (heap w sock))))) False] @
                     accept_calls os timeoutms (fd (socket_base w (nat (base (heap w sock))))) @
                     [SYS_set_blocking (fd (socket_base w (nat (base (heap w sock))))) True] @
                     rest \<and>
                   filter is_set_blocking rest = [] \<and> (\<forall>f. SYS_accept f \<notin> set rest)))"
proof (cases "can_accept sock w")
  case False
  then show ?thesis
    by (simp add: accept_refused socket_blocking_def)
next
  case True
  then obtain local where l: "address_local (heap w sock) = Some local"
    by (auto simp: can_accept_def)
  from True have b: "0 \<le> base (heap w sock)"
    by (simp add: can_accept_def)
  let ?i = "nat (base (heap w sock))"
  let ?lfd = "fd (socket_base w ?i)"
  let ?blocking = "flags (socket_base w ?i) AND SOCKETFLAG_BLOCKING \<noteq> 0"
  let ?v = "w\<lparr>syscalls := syscalls w @ accept_trace os timeoutms ?blocking ?lfd\<rparr>"
  let ?afd = "accept_ret (accepted_reply os timeoutms)"
  let ?a = "if 0 \<le> ?afd then local\<lparr>saddr := accept_saddr (accepted_reply os timeoutms)\<rparr>
            else local"
  from True range have nf: "\<not> select_faults os timeoutms ?lfd"
    by (simp add: select_faults_def)
  have unf: "tcp_socket_accept os sock timeoutms w = tcp_socket_accept_finish os sock ?afd ?a ?v"
    using True l nf by (intro accept_unfold) (simp_all add: can_accept_def)
  from lv fresh have ne: "memory_allocate_ret os \<noteq> sock"
    by auto
  have sb: "socket_blocking sock w = ?blocking"
    using b by (simp add: socket_blocking_def)
  show ?thesis
  proof (cases "tcp_socket_accept_finish os sock ?afd ?a ?v")
    case (Inl f)
    from finish_fault [OF Inl] True show ?thesis
      unfolding unf Inl by simp
  next
    case (Inr r)
    obtain accepted w' where r: "r = (accepted, w')"
      by (cases r)
    note res = Inr [unfolded r]
    have keep: "socket_blocking sock w' = socket_blocking sock ?v"
      using b lk ne by (intro finish_keeps_blocking [OF _ _ _ res]) simp_all
    have one: "socket_blocking sock w' = socket_blocking sock w"
      unfolding keep by (simp add: socket_blocking_def)
    obtain rest where rest:
        "syscalls w' = syscalls ?v @ rest"
        "filter is_set_blocking rest = []" "\<forall>f. SYS_accept f \<notin> set rest"
      using finish_syscalls [OF res] by blast
    have sys: "syscalls w' = syscalls w @ accept_trace os timeoutms ?blocking ?lfd @ rest"
      unfolding rest(1) by simp
    have two: "filter is_set_blocking (drop (length (syscalls w)) (syscalls w')) =
               (if can_accept sock w \<and> timeoutms > 0 \<and> socket_blocking sock w
                then [SYS_set_blocking ?lfd False, SYS_set_blocking ?lfd True] else [])"
      unfolding sys sb using True rest(2)
      by (simp add: accept_trace_def accept_calls_no_set_blocking)
    have three: "can_accept sock w \<and> timeoutms > 0 \<and> socket_blocking sock w \<longrightarrow>
              (\<exists>rest.
                 syscalls w' =
                   syscalls w @ [SYS_set_blocking ?lfd False] @ accept_calls os timeoutms ?lfd @
                   [SYS_set_blocking ?lfd True] @ rest \<and>
                 filter is_set_blocking rest = [] \<and> (\<forall>f. SYS_accept f \<notin> set rest))"
    proof
      assume "can_accept sock w \<and> timeoutms > 0 \<and> socket_blocking sock w"
      then have "syscalls w' =
                   syscalls w @ [SYS_set_blocking ?lfd False] @ accept_calls os timeoutms ?lfd @
                   [SYS_set_blocking ?lfd True] @ rest"
        unfolding sys sb by (simp add: accept_trace_def)
      with rest(2,3) show "\<exists>rest.
                 syscalls w' =
                   syscalls w @ [SYS_set_blocking ?lfd False] @ accept_calls os timeoutms ?lfd @
                   [SYS_set_blocking ?lfd True] @ rest \<and>
                 filter is_set_blocking rest = [] \<and> (\<forall>f. SYS_accept f \<notin> set rest)"
        by blast
    qed
    from one two three show ?thesis
      unfolding unf Inr r by simp
  qed
qed

theorem accept_restores_blocking_mode_witness:
  "1 \<in> live (example_world SOCKETSTATE_LISTENING SOCKETFLAG_BLOCKING) \<and>
   memory_allocate_ret example_os \<notin> live (example_world SOCKETSTATE_LISTENING SOCKETFLAG_BLOCKING) \<and>
   socket_blocking 1 (example_world SOCKETSTATE_LISTENING SOCKETFLAG_BLOCKING) \<and>
   (\<exists>accepted w'.
      tcp_socket_accept example_os 1 100
        (example_world SOCKETSTATE_LISTENING SOCKETFLAG_BLOCKING) = Inr (accepted, w') \<and>
      socket_blocking 1 w' \<and>
      filter is_set_blocking
        (drop (length (syscalls (example_world SOCKETSTATE_LISTENING SOCKETFLAG_BLOCKING)))
           (syscalls w')) =
        [SYS_set_blocking 3 False, SYS_set_blocking 3 True])"
proof -
  let ?w = "example_world SOCKETSTATE_LISTENING SOCKETFLAG_BLOCKING"
  let ?lfd = "fd (socket_base ?w (nat (base (heap ?w 1))))"
  have lv: "1 \<in> live ?w"
    by (simp add: example_defs)
  have fresh: "memory_allocate_ret example_os \<notin> live ?w"
    by (simp add: example_defs)
  have lk: "0 \<le> base (heap ?w 1) \<longrightarrow> link (socket_base ?w (nat (base (heap ?w 1)))) \<noteq> 0"
    by (simp add: example_defs)
  have range: "can_accept 1 ?w \<longrightarrow> 0 \<le> ?lfd \<and> ?lfd < FD_SETSIZE"
    by (simp add: example_defs)
  have sb: "socket_blocking 1 ?w"
    by (simp add: socket_blocking_def example_defs SOCKETFLAG_BLOCKING_def)
  have t: "(0::32 word) < 100"
    by simp
  have lfd: "?lfd = 3"
    by (simp add: example_defs)
  have mem: "memory_allocate_ret example_os \<noteq> 0"
    by (simp add: example_defs)
  note th = accept_restores_blocking_mode [OF lv fresh lk range, of 100]
  have "\<exists>accepted w'.
      tcp_socket_accept example_os 1 100 ?w = Inr (accepted, w') \<and>
      socket_blocking 1 w' \<and>
      filter is_set_blocking (drop (length (syscalls ?w)) (syscalls w')) =
        [SYS_set_blocking 3 False, SYS_set_blocking 3 True]"
  proof (cases "tcp_socket_accept example_os 1 100 ?w")
    case (Inl f)
    with th have "memory_allocate_ret example_os = 0"
      by simp
    with mem have False
      by simp
    then show ?thesis ..
  next
    case (Inr r)
    obtain a w' where r: "r = (a, w')"
      by (cases r)
    from th Inr r have
      one: "socket_blocking 1 w' = socket_blocking 1 ?w"
      and two: "filter is_set_blocking (drop (length (syscalls ?w)) (syscalls w')) =
               (if can_accept 1 ?w \<and> (0::32 word) < 100 \<and> socket_blocking 1 ?w
                then [SYS_set_blocking ?lfd False, SYS_set_blocking ?lfd True] else [])"
      by simp_all
    from one sb have a: "socket_blocking 1 w'"
      by simp
    from two sb t ex_listening [of SOCKETFLAG_BLOCKING] lfd
    have b: "filter is_set_blocking (drop (length (syscalls ?w)) (syscalls w')) =
             [SYS_set_blocking 3 False, SYS_set_blocking 3 True]"
      by simp
    from Inr r a b show ?thesis
      by blast
  qed
  with lv fresh sb show ?thesis
    by blast
qed

text \<open>
  C3 as the spec words it has the second \<^verbatim>\<open>accept\<close> follow every \<^verbatim>\<open>select\<close>, for every
  descriptor. On a blocking listener with a timeout of 100 ms, where \<^verbatim>\<open>accept\<close> would
  block and \<^verbatim>\<open>select\<close> times out (returns 0), the function calls \<^verbatim>\<open>accept\<close> once only: after
  \<^verbatim>\<open>select\<close> it goes straight to restoring the blocking mode. And on a listener whose
  descriptor is 1024, the function does not get to \<^verbatim>\<open>select\<close>: \<^verbatim>\<open>FD_SET\<close> is out of range.
\<close>

theorem accept_retry_counterexample:
  "can_accept 1 (example_world SOCKETSTATE_LISTENING SOCKETFLAG_BLOCKING) \<and>
   socket_blocking 1 (example_world SOCKETSTATE_LISTENING SOCKETFLAG_BLOCKING) \<and>
   (0::32 word) < 100 \<and>
   accept_ret (accept_first (example_os\<lparr>select_ret := 0\<rparr>)) < 0 \<and>
   accept_errno (accept_first (example_os\<lparr>select_ret := 0\<rparr>)) = EAGAIN \<and>
   tcp_socket_accept (example_os\<lparr>select_ret := 0\<rparr>) 1 100
       (example_world SOCKETSTATE_LISTENING SOCKETFLAG_BLOCKING) =
     Inr (0, (example_world SOCKETSTATE_LISTENING SOCKETFLAG_BLOCKING)
        \<lparr>syscalls := [SYS_set_blocking 3 False, SYS_accept 3, SYS_select 4 [3] [3] 0 100000,
                      SYS_set_blocking 3 True],
         logged := [LOG_debugf ''Accept returned invalid socket fd'']\<rparr>) \<and>
   count_list
     [SYS_set_blocking 3 False, SYS_accept 3, SYS_select 4 [3] [3] 0 100000,
      SYS_set_blocking 3 True]
     (SYS_accept 3) = 1 \<and>
   can_accept 1 example_world_fd1024 \<and>
   socket_blocking 1 example_world_fd1024 \<and>
   tcp_socket_accept example_os 1 100 example_world_fd1024 = Inl FD_SET_OUT_OF_RANGE"
proof -
  let ?w = "example_world SOCKETSTATE_LISTENING SOCKETFLAG_BLOCKING"
  let ?os = "example_os\<lparr>select_ret := 0\<rparr>"
  have sb: "socket_blocking 1 ?w"
    by (simp add: socket_blocking_def example_defs SOCKETFLAG_BLOCKING_def)
  have os: "accept_ret (accept_first ?os) < 0" "accept_errno (accept_first ?os) = EAGAIN"
    by (simp_all add: example_defs)
  have w: "0 \<le> base (heap ?w 1)"
          "state (socket_base ?w (nat (base (heap ?w 1)))) = SOCKETSTATE_LISTENING"
          "fd (socket_base ?w (nat (base (heap ?w 1)))) \<noteq> SOCKET_INVALID"
          "address_local (heap ?w 1) = Some example_address"
    by (simp_all add: example_defs)
  have nf: "\<not> select_faults ?os 100 (fd (socket_base ?w (nat (base (heap ?w 1)))))"
    by (rule ex_in_range)
  have r: "accepted_reply ?os 100 = accept_first ?os"
    by (simp add: accepted_reply_def example_defs)
  have afd: "accept_ret (accepted_reply ?os 100) < 0"
    unfolding r by (rule os(1))
  have tr: "accept_trace ?os 100
              (flags (socket_base ?w (nat (base (heap ?w 1)))) AND SOCKETFLAG_BLOCKING \<noteq> 0)
              (fd (socket_base ?w (nat (base (heap ?w 1))))) =
            [SYS_set_blocking 3 False, SYS_accept 3, SYS_select 4 [3] [3] 0 100000,
             SYS_set_blocking 3 True]"
    by (simp add: accept_trace_def accept_calls_def example_defs SOCKETFLAG_BLOCKING_def)
  have e: "syscalls ?w = []" "logged ?w = []"
    by (simp_all add: example_defs)
  have s: "tcp_socket_accept ?os 1 100 ?w =
           Inr (0, ?w\<lparr>syscalls := [SYS_set_blocking 3 False, SYS_accept 3,
                                    SYS_select 4 [3] [3] 0 100000, SYS_set_blocking 3 True],
                       logged := [LOG_debugf ''Accept returned invalid socket fd'']\<rparr>)"
    unfolding accept_unfold [OF w nf] finish_invalid_fd [OF afd] tr e
    by (simp add: e)
  have c: "count_list [SYS_set_blocking 3 False, SYS_accept 3, SYS_select 4 [3] [3] 0 100000,
                       SYS_set_blocking 3 True] (SYS_accept 3) = 1"
    by simp
  have h: "0 \<le> base (heap example_world_fd1024 1)"
          "state (socket_base example_world_fd1024 (nat (base (heap example_world_fd1024 1)))) =
             SOCKETSTATE_LISTENING"
          "fd (socket_base example_world_fd1024 (nat (base (heap example_world_fd1024 1)))) \<noteq>
             SOCKET_INVALID"
          "address_local (heap example_world_fd1024 1) = Some example_address"
    by (simp_all add: example_world_fd1024_def example_defs)
  have hsf: "select_faults example_os 100
               (fd (socket_base example_world_fd1024 (nat (base (heap example_world_fd1024 1)))))"
    by (simp add: select_faults_def example_world_fd1024_def example_defs)
  have hca: "can_accept 1 example_world_fd1024"
    using h by (simp add: can_accept_def)
  have hsb: "socket_blocking 1 example_world_fd1024"
    by (simp add: socket_blocking_def example_world_fd1024_def example_defs
        SOCKETFLAG_BLOCKING_def)
  have hf: "tcp_socket_accept example_os 1 100 example_world_fd1024 = Inl FD_SET_OUT_OF_RANGE"
    by (rule accept_unfold_fault [OF h hsf])
  from ex_listening [of SOCKETFLAG_BLOCKING] sb os s c hca hsb hf show ?thesis
    by simp
qed

end
